theory Spec2Isabelle
  imports Complex_Main "HOL-Library.Log_Nat"
begin

section \<open>JavaScript values used by the controllers\<close>

text \<open>
  A JavaScript string is a sequence of UTF-16 code units; a code unit is modelled by its
  number.  \<open>js\<close> turns an ASCII literal into such a string.
\<close>

type_synonym jsstring = "nat list"

definition js :: "string \<Rightarrow> jsstring" where
  "js s = map of_char s"

text \<open>
  The values a JSON request body can hold in one field.  \<open>JUndefined\<close> is an absent
  field; \<open>JObj\<close> stands for any object or array (always truthy, no \<open>trim\<close> method).
  JSON numbers are taken to be integers.
\<close>

datatype jsval = JUndefined | JNull | JBool bool | JNum int | JStr jsstring | JObj

text \<open>\<open>!x\<close> is \<open>\<not> truthy x\<close>.\<close>

fun truthy :: "jsval \<Rightarrow> bool" where
  "truthy JUndefined = False"
| "truthy JNull = False"
| "truthy (JBool b) = b"
| "truthy (JNum n) = (n \<noteq> 0)"
| "truthy (JStr s) = (s \<noteq> [])"
| "truthy JObj = True"

text \<open>
  The code units that \<open>String.prototype.trim\<close> and \<open>parseInt\<close> strip: ECMAScript
  WhiteSpace and LineTerminator.
\<close>

definition is_ws :: "nat \<Rightarrow> bool" where
  "is_ws c \<longleftrightarrow>
     c \<in> {0x9, 0xA, 0xB, 0xC, 0xD, 0x20, 0xA0, 0x1680, 0x2028, 0x2029, 0x202F, 0x205F,
          0x3000, 0xFEFF}
     \<or> (0x2000 \<le> c \<and> c \<le> 0x200A)"

definition trim :: "jsstring \<Rightarrow> jsstring" where
  "trim s = rev (dropWhile is_ws (rev (dropWhile is_ws s)))"

datatype js_error = TypeError

text \<open>
  \<open>x.trim()\<close> on a body field: only a string has the method, every other value
  throws a TypeError.
\<close>

fun trim_val :: "jsval \<Rightarrow> js_error + jsstring" where
  "trim_val (JStr s) = Inr (trim s)"
| "trim_val _ = Inl TypeError"

subsection \<open>The postal code pattern\<close>

text \<open>\<open>\d\<close> without the unicode flag is exactly \<open>[0-9]\<close>.\<close>

definition is_digit :: "nat \<Rightarrow> bool" where
  "is_digit c \<longleftrightarrow> 0x30 \<le> c \<and> c \<le> 0x39"

text \<open>
  \<open>/^\d{5}(-\d{4})?$/.test(s)\<close>: five digits, then either the end of the input or a
  hyphen (code unit 0x2D), four digits and the end of the input.  Without the \<open>m\<close> flag
  \<open>$\<close> matches at the end of the input only.
\<close>

definition postalCodeRegex_test :: "jsstring \<Rightarrow> bool" where
  "postalCodeRegex_test s \<longleftrightarrow>
     length (take 5 s) = 5 \<and> list_all is_digit (take 5 s) \<and>
     (case drop 5 s of
        [] \<Rightarrow> True
      | c # r \<Rightarrow> c = 0x2D \<and> length r = 4 \<and> list_all is_digit r)"

subsection \<open>Numbers\<close>

text \<open>
  A JavaScript number is a double.  The numbers of the controllers are integers, so a
  number is modelled as NaN, an integer that is a double, or an infinity (\<open>-0\<close> is
  \<open>0\<close> here; both are falsy).  \<open>to_number\<close> is the double nearest to an integer:
  below \<open>2^53\<close> the integer itself, above it the 53 most significant bits rounded to
  nearest, ties to even, and an infinity from \<open>2^1024\<close> on.
\<close>

datatype jsnumber = NaN | Num int | PosInfinity | NegInfinity

definition round_magnitude :: "int \<Rightarrow> int" where
  "round_magnitude n =
     (if n < 2 ^ 53 then n
      else
        let e = nat (bitlen n - 53);
            q = n div 2 ^ e;
            r = n mod 2 ^ e
        in (if 2 * r > 2 ^ e \<or> (2 * r = 2 ^ e \<and> odd q) then q + 1 else q) * 2 ^ e)"

definition to_number :: "int \<Rightarrow> jsnumber" where
  "to_number n =
     (let m = round_magnitude \<bar>n\<bar>
      in if m \<ge> 2 ^ 1024 then (if n < 0 then NegInfinity else PosInfinity)
         else Num (if n < 0 then - m else m))"

text \<open>\<open>x - k\<close> and \<open>x * y\<close>: the exact result, rounded to a double.\<close>

definition js_minus :: "jsnumber \<Rightarrow> int \<Rightarrow> jsnumber" where
  "js_minus x k = (case x of Num n \<Rightarrow> to_number (n - k) | _ \<Rightarrow> x)"

definition sign_of :: "jsnumber \<Rightarrow> int" where
  "sign_of x = (case x of NaN \<Rightarrow> 0 | Num n \<Rightarrow> sgn n | PosInfinity \<Rightarrow> 1 | NegInfinity \<Rightarrow> - 1)"

definition js_times :: "jsnumber \<Rightarrow> jsnumber \<Rightarrow> jsnumber" where
  "js_times x y =
     (case (x, y) of
        (NaN, _) \<Rightarrow> NaN
      | (_, NaN) \<Rightarrow> NaN
      | (Num a, Num b) \<Rightarrow> to_number (a * b)
      | _ \<Rightarrow>
          if sign_of x * sign_of y = 0 then NaN
          else if sign_of x * sign_of y > 0 then PosInfinity else NegInfinity)"

text \<open>\<open>Math.max(a, x)\<close> and \<open>Math.min(a, x)\<close> for an integer \<open>a\<close>.\<close>

definition Math_max :: "int \<Rightarrow> jsnumber \<Rightarrow> jsnumber" where
  "Math_max a x =
     (case x of NaN \<Rightarrow> NaN | Num n \<Rightarrow> Num (max a n) | PosInfinity \<Rightarrow> PosInfinity
      | NegInfinity \<Rightarrow> Num a)"

definition Math_min :: "int \<Rightarrow> jsnumber \<Rightarrow> jsnumber" where
  "Math_min a x =
     (case x of NaN \<Rightarrow> NaN | Num n \<Rightarrow> Num (min a n) | PosInfinity \<Rightarrow> Num a
      | NegInfinity \<Rightarrow> NegInfinity)"

subsection \<open>parseInt\<close>

text \<open>
  \<open>parseInt(s)\<close> with no radix, on a query-string value (a string, or absent):
  leading white space is skipped, a sign is read, a \<open>0x\<close>/\<open>0X\<close> prefix selects radix
  16, and the longest prefix of digits of the radix is the value, as the nearest
  double; with no digit the result is NaN.  (Past 20 significant decimal digits the
  standard lets an implementation replace further digits by 0; the value here is
  the exact one, rounded.)
\<close>

definition digit_value :: "nat \<Rightarrow> nat" where
  "digit_value c =
     (if 0x30 \<le> c \<and> c \<le> 0x39 then c - 0x30
      else if 0x61 \<le> c \<and> c \<le> 0x7A then c - 0x61 + 10
      else if 0x41 \<le> c \<and> c \<le> 0x5A then c - 0x41 + 10
      else 36)"

definition radix_digits :: "nat \<Rightarrow> jsstring \<Rightarrow> jsstring" where
  "radix_digits R s = takeWhile (\<lambda>c. digit_value c < R) s"

definition digits_value :: "nat \<Rightarrow> jsstring \<Rightarrow> nat" where
  "digits_value R ds = foldl (\<lambda>acc c. acc * R + digit_value c) 0 ds"

definition parse_magnitude :: "jsstring \<Rightarrow> nat option" where
  "parse_magnitude s =
     (let (R, t) = (case s of
                      a # b # r \<Rightarrow> if a = 0x30 \<and> (b = 0x78 \<or> b = 0x58) then (16, r) else (10, s)
                    | _ \<Rightarrow> (10, s));
          ds = radix_digits R t
      in if ds = [] then None else Some (digits_value R ds))"

definition parseInt :: "jsstring option \<Rightarrow> jsnumber" where
  "parseInt q =
     (case q of
        None \<Rightarrow> NaN
      | Some s \<Rightarrow>
          (case dropWhile is_ws s of
             [] \<Rightarrow> NaN
           | c # r \<Rightarrow>
               if c = 0x2D
               then (case parse_magnitude r of None \<Rightarrow> NaN | Some n \<Rightarrow> to_number (- int n))
               else if c = 0x2B
               then (case parse_magnitude r of None \<Rightarrow> NaN | Some n \<Rightarrow> to_number (int n))
               else (case parse_magnitude (c # r) of
                       None \<Rightarrow> NaN
                     | Some n \<Rightarrow> to_number (int n))))"

text \<open>\<open>parseInt(q) || d\<close>: NaN and 0 are falsy.\<close>

definition or_default :: "jsnumber \<Rightarrow> int \<Rightarrow> jsnumber" where
  "or_default r d = (case r of NaN \<Rightarrow> Num d | Num n \<Rightarrow> if n = 0 then Num d else Num n | _ \<Rightarrow> r)"

section \<open>The data model and the persistence collaborator\<close>

text \<open>
  The models \<open>user.js\<close> and \<open>shippingAddress.js\<close> are imported by the controllers;
  the records below hold the columns the controllers read and write.  Keys and
  timestamps are integers.
\<close>

record user =
  user_id :: int
  firstName :: jsstring
  lastName_father :: jsstring
  lastName_mother :: jsstring
  nombre :: jsstring
  email :: jsstring
  hashed_password :: jsstring

record shipping_address =
  addr_id :: int
  usuario_id :: int
  direccion :: jsstring
  ciudad :: jsstring
  estado_provincia :: jsstring
  codigo_postal :: jsstring
  pais :: jsstring
  is_default :: bool
  created_at :: int
  updated_at :: int

text \<open>
  The database: the two tables, rows in insertion order, and the counter from which the
  store generates the next surrogate key of a shipping address.
\<close>

record db =
  Users :: "user list"
  ShippingAddresses :: "shipping_address list"
  next_addr_id :: int

text \<open>
  What the relational store guarantees: primary keys are unique, generated keys are
  fresh, and the foreign key of an address names a stored user.
\<close>

definition wf_db :: "db \<Rightarrow> bool" where
  "wf_db d \<longleftrightarrow>
     distinct (map user_id (Users d)) \<and>
     distinct (map addr_id (ShippingAddresses d)) \<and>
     list_all (\<lambda>a. addr_id a < next_addr_id d) (ShippingAddresses d) \<and>
     list_all (\<lambda>a. usuario_id a \<in> set (map user_id (Users d))) (ShippingAddresses d)"

subsection \<open>The ORM calls the controllers make\<close>

definition User_findByPk :: "db \<Rightarrow> int \<Rightarrow> user option" where
  "User_findByPk d k = find (\<lambda>u. user_id u = k) (Users d)"

definition ShippingAddress_findByPk :: "db \<Rightarrow> int \<Rightarrow> shipping_address option" where
  "ShippingAddress_findByPk d k = find (\<lambda>a. addr_id a = k) (ShippingAddresses d)"

text \<open>An include with \<open>required: true\<close> is an inner join: rows without their user drop out.\<close>

definition has_user :: "db \<Rightarrow> shipping_address \<Rightarrow> bool" where
  "has_user d a \<longleftrightarrow> User_findByPk d (usuario_id a) \<noteq> None"

definition ShippingAddress_findByPk_required :: "db \<Rightarrow> int \<Rightarrow> shipping_address option" where
  "ShippingAddress_findByPk_required d k =
     find (\<lambda>a. addr_id a = k \<and> has_user d a) (ShippingAddresses d)"

definition ShippingAddress_count :: "db \<Rightarrow> (shipping_address \<Rightarrow> bool) \<Rightarrow> int" where
  "ShippingAddress_count d P = int (length (filter P (ShippingAddresses d)))"

text \<open>\<open>order: [['created_at', 'DESC']]\<close>; rows with equal timestamps keep their stored order.\<close>

definition order_created_desc :: "shipping_address list \<Rightarrow> shipping_address list" where
  "order_created_desc rows = sort_key (\<lambda>a. - created_at a) rows"

datatype db_error = QueryError

text \<open>
  LIMIT and OFFSET are 64-bit signed integers in the store: it refuses a value that is
  negative, above \<open>2^63 - 1\<close> or not a finite number, and the call throws.
\<close>

definition sql_bigint_max :: int where
  "sql_bigint_max = 2 ^ 63 - 1"

definition store_accepts :: "jsnumber \<Rightarrow> bool" where
  "store_accepts x = (case x of Num n \<Rightarrow> 0 \<le> n \<and> n \<le> sql_bigint_max | _ \<Rightarrow> False)"

text \<open>\<open>findAll\<close> with \<open>where\<close>, \<open>order\<close>, \<open>limit\<close> and \<open>offset\<close>.\<close>

definition ShippingAddress_findAll ::
  "db \<Rightarrow> (shipping_address \<Rightarrow> bool) \<Rightarrow> jsnumber \<Rightarrow> jsnumber
     \<Rightarrow> db_error + shipping_address list" where
  "ShippingAddress_findAll d P limit offset =
     (case (limit, offset) of
        (Num l, Num off) \<Rightarrow>
          if store_accepts (Num l) \<and> store_accepts (Num off)
          then Inr (take (nat l) (drop (nat off)
                      (order_created_desc (filter P (ShippingAddresses d)))))
          else Inl QueryError
      | _ \<Rightarrow> Inl QueryError)"

text \<open>\<open>findAndCountAll\<close>: the count of all matching rows, whatever the page, and the page.\<close>

definition ShippingAddress_findAndCountAll ::
  "db \<Rightarrow> (shipping_address \<Rightarrow> bool) \<Rightarrow> jsnumber \<Rightarrow> jsnumber
     \<Rightarrow> db_error + (int \<times> shipping_address list)" where
  "ShippingAddress_findAndCountAll d P limit offset =
     (case ShippingAddress_findAll d P limit offset of
        Inl e \<Rightarrow> Inl e
      | Inr rows \<Rightarrow> Inr (ShippingAddress_count d P, rows))"

text \<open>
  \<open>create\<close>: the store draws the next key, which is then used up whether or not the
  insert goes through; \<open>is_default\<close> takes its column default; an insert whose foreign
  key names no user is refused (the call throws).
\<close>

definition ShippingAddress_create ::
  "db \<Rightarrow> int \<Rightarrow> jsstring \<Rightarrow> jsstring \<Rightarrow> jsstring \<Rightarrow> jsstring \<Rightarrow> jsstring \<Rightarrow> int \<Rightarrow> int
     \<Rightarrow> (db_error + shipping_address) \<times> db" where
  "ShippingAddress_create d uid dir ciu est cp pa created updated =
     (let row = \<lparr>addr_id = next_addr_id d, usuario_id = uid, direccion = dir, ciudad = ciu,
                 estado_provincia = est, codigo_postal = cp, pais = pa, is_default = False,
                 created_at = created, updated_at = updated\<rparr>;
          d1 = d\<lparr>next_addr_id := next_addr_id d + 1\<rparr>
      in if User_findByPk d uid = None then (Inl QueryError, d1)
         else (Inr row, d1\<lparr>ShippingAddresses := ShippingAddresses d @ [row]\<rparr>))"

text \<open>\<open>Model.update(values, {where})\<close> and \<open>Model.destroy({where})\<close>.\<close>

definition ShippingAddress_update ::
  "db \<Rightarrow> (shipping_address \<Rightarrow> shipping_address) \<Rightarrow> (shipping_address \<Rightarrow> bool) \<Rightarrow> db" where
  "ShippingAddress_update d f P =
     d\<lparr>ShippingAddresses := map (\<lambda>a. if P a then f a else a) (ShippingAddresses d)\<rparr>"

definition ShippingAddress_destroy :: "db \<Rightarrow> (shipping_address \<Rightarrow> bool) \<Rightarrow> db" where
  "ShippingAddress_destroy d P =
     d\<lparr>ShippingAddresses := filter (\<lambda>a. \<not> P a) (ShippingAddresses d)\<rparr>"


section \<open>Responses\<close>

text \<open>
  The user projection joined to an address (\<open>attributes: ['id', 'firstName',
  'lastName_father']\<close>).
\<close>

record user_view =
  view_id :: int
  view_firstName :: jsstring
  view_lastName_father :: jsstring

definition minimal_user :: "user \<Rightarrow> user_view" where
  "minimal_user u =
     \<lparr>view_id = user_id u, view_firstName = firstName u, view_lastName_father = lastName_father u\<rparr>"

text \<open>\<open>findByPk(k, {include: [{model: User, attributes: [...]}]})\<close>, a left join.\<close>

type_synonym joined_address = "shipping_address \<times> user_view option"

definition ShippingAddress_findByPk_include :: "db \<Rightarrow> int \<Rightarrow> joined_address option" where
  "ShippingAddress_findByPk_include d k =
     map_option (\<lambda>a. (a, map_option minimal_user (User_findByPk d (usuario_id a))))
       (ShippingAddress_findByPk d k)"

record pagination =
  currentPage :: jsnumber
  totalPages :: jsnumber
  totalItems :: int
  itemsPerPage :: jsnumber

text \<open>
  The JSON bodies: the \<open>error\<close> or \<open>message\<close> text and the \<open>data\<close> member.  Contextual
  members of error bodies (\<open>required\<close>, \<open>currentCount\<close>, \<open>userId\<close>, \<open>addressId\<close>,
  \<open>details\<close>, the echoed filters), the column selection of listed rows and the
  \<open>Cache-Control\<close> header of list responses are left out.  \<open>ThrownMessage\<close> is the
  body \<open>{error: error.message}\<close> of the user controller.
\<close>

datatype body =
    Error string
  | ThrownMessage
  | Message string
  | AddressData string "joined_address option"
  | CreatedData string shipping_address
  | PageData string "(int \<times> jsstring) option" "shipping_address list" pagination
  | DeletedData string int int int bool
  | CountData string int
  | UserData user

record response =
  status :: nat
  body :: body

definition respond :: "nat \<Rightarrow> body \<Rightarrow> response" where
  "respond c b = \<lparr>status = c, body = b\<rparr>"

text \<open>
  \<open>Math.ceil(count / limit)\<close> for a row count: the quotient by a finite non-zero
  number (taken exactly, as it is for counts below \<open>2^53\<close>), \<open>0\<close> by an infinity, and
  by zero an infinity, or NaN for \<open>0 / 0\<close>.
\<close>

definition Math_ceil_div :: "int \<Rightarrow> jsnumber \<Rightarrow> jsnumber" where
  "Math_ceil_div count limit =
     (case limit of
        NaN \<Rightarrow> NaN
      | Num l \<Rightarrow>
          if l \<noteq> 0 then Num \<lceil>real_of_int count / real_of_int l\<rceil>
          else if count = 0 then NaN
          else if count > 0 then PosInfinity else NegInfinity
      | _ \<Rightarrow> Num 0)"

text \<open>
  \<open>Math.max(1, parseInt(req.query.page) || 1)\<close> and
  \<open>Math.min(50, Math.max(1, parseInt(req.query.limit) || 10))\<close>.
\<close>

definition page_of :: "jsstring option \<Rightarrow> jsnumber" where
  "page_of q = Math_max 1 (or_default (parseInt q) 1)"

definition limit_of :: "jsstring option \<Rightarrow> jsnumber" where
  "limit_of q = Math_min 50 (Math_max 1 (or_default (parseInt q) 10))"

section \<open>The shipping address controller\<close>

text \<open>
  A request carries the body fields, the path and query parameters, the identity that
  the authentication middleware attached (\<open>req.userId\<close>, \<open>req.isAdmin\<close>) and the
  clock value of \<open>new Date()\<close>.  Each handler returns its response and the database
  after the call; a handler that only reads returns the response.

  The text fields of a body are arbitrary JSON values.  \<open>usuario_id\<close> in a body is a
  JSON number or absent, so \<open>!usuarioId\<close> holds when it is absent or 0.  A path
  parameter is a string naming a key, or absent; it is falsy only when absent.
\<close>

record address_fields =
  body_direccion :: jsval
  body_ciudad :: jsval
  body_estado_provincia :: jsval
  body_codigo_postal :: jsval
  body_pais :: jsval

record create_body = address_fields +
  body_usuario_id :: "int option"

definition id_truthy :: "int option \<Rightarrow> bool" where
  "id_truthy k = (case k of None \<Rightarrow> False | Some n \<Rightarrow> n \<noteq> 0)"

text \<open>
  The five \<open>x.trim()\<close> calls of the object literal passed to \<open>create\<close>; the first one
  that throws ends the evaluation.
\<close>

definition trimmed_fields ::
  "'a address_fields_scheme \<Rightarrow> js_error + (jsstring \<times> jsstring \<times> jsstring \<times> jsstring \<times> jsstring)" where
  "trimmed_fields b =
     (case trim_val (body_direccion b) of Inl e \<Rightarrow> Inl e | Inr dir \<Rightarrow>
     (case trim_val (body_ciudad b) of Inl e \<Rightarrow> Inl e | Inr ciu \<Rightarrow>
     (case trim_val (body_estado_provincia b) of Inl e \<Rightarrow> Inl e | Inr est \<Rightarrow>
     (case trim_val (body_codigo_postal b) of Inl e \<Rightarrow> Inl e | Inr cp \<Rightarrow>
     (case trim_val (body_pais b) of Inl e \<Rightarrow> Inl e | Inr pa \<Rightarrow>
        Inr (dir, ciu, est, cp, pa))))))"

definition createShippingAddress :: "create_body \<Rightarrow> int \<Rightarrow> db \<Rightarrow> response \<times> db" where
  "createShippingAddress b now d =
     (if \<not> id_truthy (body_usuario_id b) \<or> \<not> truthy (body_direccion b) \<or>
         \<not> truthy (body_ciudad b) \<or> \<not> truthy (body_estado_provincia b) \<or>
         \<not> truthy (body_codigo_postal b) \<or> \<not> truthy (body_pais b)
      then (respond 400 (Error ''All fields are required''), d)
      else
        (case body_usuario_id b of
          None \<Rightarrow> (respond 400 (Error ''All fields are required''), d)
        | Some usuarioId \<Rightarrow>
            (case User_findByPk d usuarioId of
               None \<Rightarrow> (respond 404 (Error ''User not found''), d)
             | Some userExists \<Rightarrow>
                 if ShippingAddress_count d (\<lambda>a. usuario_id a = usuarioId) \<ge> 5
                 then (respond 400 (Error ''Maximum number of addresses reached (5)''), d)
                 else
                   (case trim_val (body_codigo_postal b) of
                      Inl e \<Rightarrow> (respond 500 (Error ''Error creating shipping address''), d)
                    | Inr cp \<Rightarrow>
                        if \<not> postalCodeRegex_test cp
                        then (respond 400 (Error ''Invalid postal code format''), d)
                        else
                          (case trimmed_fields b of
                             Inl e \<Rightarrow> (respond 500 (Error ''Error creating shipping address''), d)
                           | Inr (dir, ciu, est, cp', pa) \<Rightarrow>
                               (case ShippingAddress_create d usuarioId dir ciu est cp' pa now now of
                                  (Inl e, d') \<Rightarrow>
                                    (respond 500 (Error ''Error creating shipping address''), d')
                                | (Inr shippingAddress, d') \<Rightarrow>
                                    (respond 201
                                       (AddressData ''Shipping address created successfully''
                                          (ShippingAddress_findByPk_include d'
                                             (addr_id shippingAddress))),
                                     d')))))))"

definition getShippingAddressesByUserId ::
  "int option \<Rightarrow> jsstring option \<Rightarrow> jsstring option \<Rightarrow> db \<Rightarrow> response" where
  "getShippingAddressesByUserId param_usuario_id query_page query_limit d =
     (case param_usuario_id of
        None \<Rightarrow> respond 400 (Error ''User ID is required'')
      | Some usuarioId \<Rightarrow>
          (case User_findByPk d usuarioId of
             None \<Rightarrow> respond 404 (Error ''User not found'')
           | Some user \<Rightarrow>
               let page = page_of query_page;
                   limit = limit_of query_limit;
                   offset = js_times (js_minus page 1) limit
               in (case ShippingAddress_findAndCountAll d
                          (\<lambda>a. usuario_id a = usuarioId \<and> has_user d a) limit offset of
                     Inl e \<Rightarrow> respond 500 (Error ''Error retrieving shipping addresses'')
                   | Inr (count, rows) \<Rightarrow>
                       if count = 0
                       then respond 404 (Message ''No shipping addresses found for this user'')
                       else
                         let totalPages = Math_ceil_div count limit
                         in respond 200
                              (PageData ''Shipping addresses retrieved successfully''
                                 (Some (user_id user, firstName user @ [0x20] @ lastName_father user))
                                 rows
                                 \<lparr>currentPage = page, totalPages = totalPages,
                                  totalItems = count, itemsPerPage = limit\<rparr>))))"

text \<open>
  A query filter is a string or absent; \<open>if (ciudad) whereClause.ciudad = ciudad.trim()\<close>
  adds an equality on the trimmed value when the string is not empty.
\<close>

definition filter_matches :: "jsstring option \<Rightarrow> jsstring \<Rightarrow> bool" where
  "filter_matches q v = (case q of None \<Rightarrow> True | Some s \<Rightarrow> if s \<noteq> [] then v = trim s else True)"

definition getAllShippingAddresses ::
  "jsstring option \<Rightarrow> jsstring option \<Rightarrow> jsstring option \<Rightarrow> jsstring option \<Rightarrow> jsstring option
     \<Rightarrow> db \<Rightarrow> response" where
  "getAllShippingAddresses query_page query_limit query_ciudad query_estado_provincia query_pais d =
     (let page = page_of query_page;
          limit = limit_of query_limit;
          offset = js_times (js_minus page 1) limit;
          whereClause = (\<lambda>a. filter_matches query_ciudad (ciudad a) \<and>
                              filter_matches query_estado_provincia (estado_provincia a) \<and>
                              filter_matches query_pais (pais a));
          totalCount = ShippingAddress_count d whereClause
      in if totalCount = 0 then respond 404 (Message ''No shipping addresses found'')
         else
           (case ShippingAddress_findAll d (\<lambda>a. whereClause a \<and> has_user d a) limit offset of
              Inl e \<Rightarrow> respond 500 (Error ''Error retrieving shipping addresses'')
            | Inr shippingAddresses \<Rightarrow>
                let totalPages = Math_ceil_div totalCount limit
                in respond 200
                     (PageData ''Shipping addresses retrieved successfully'' None shippingAddresses
                        \<lparr>currentPage = page, totalPages = totalPages,
                         totalItems = totalCount, itemsPerPage = limit\<rparr>)))"

definition deleteShippingAddress :: "int option \<Rightarrow> int \<Rightarrow> bool \<Rightarrow> db \<Rightarrow> response \<times> db" where
  "deleteShippingAddress id_ShippingAddress userId isAdmin d =
     (case id_ShippingAddress of
        None \<Rightarrow> (respond 400 (Error ''Shipping address ID is required''), d)
      | Some k \<Rightarrow>
          (case ShippingAddress_findByPk_required d k of
             None \<Rightarrow> (respond 404 (Error ''Shipping address not found''), d)
           | Some address \<Rightarrow>
               if usuario_id address \<noteq> userId \<and> \<not> isAdmin
               then (respond 403 (Error ''Not authorized to delete this address''), d)
               else
                 (respond 200
                    (DeletedData ''Shipping address deleted successfully''
                       k (usuario_id address) userId isAdmin),
                  ShippingAddress_destroy d (\<lambda>a. addr_id a = addr_id address))))"

text \<open>
  The \<open>updates\<close> object: \<open>updated_at\<close> always, and each text column only where
  \<open>if (x) updates.x = x.trim()\<close> ran.
\<close>

record updates =
  set_direccion :: "jsstring option"
  set_ciudad :: "jsstring option"
  set_estado_provincia :: "jsstring option"
  set_codigo_postal :: "jsstring option"
  set_pais :: "jsstring option"
  set_updated_at :: int

definition trim_if_truthy :: "jsval \<Rightarrow> js_error + jsstring option" where
  "trim_if_truthy x =
     (if truthy x then (case trim_val x of Inl e \<Rightarrow> Inl e | Inr t \<Rightarrow> Inr (Some t)) else Inr None)"

definition prepare_updates :: "'a address_fields_scheme \<Rightarrow> int \<Rightarrow> js_error + updates" where
  "prepare_updates b now =
     (case trim_if_truthy (body_direccion b) of Inl e \<Rightarrow> Inl e | Inr dir \<Rightarrow>
     (case trim_if_truthy (body_ciudad b) of Inl e \<Rightarrow> Inl e | Inr ciu \<Rightarrow>
     (case trim_if_truthy (body_estado_provincia b) of Inl e \<Rightarrow> Inl e | Inr est \<Rightarrow>
     (case trim_if_truthy (body_codigo_postal b) of Inl e \<Rightarrow> Inl e | Inr cp \<Rightarrow>
     (case trim_if_truthy (body_pais b) of Inl e \<Rightarrow> Inl e | Inr pa \<Rightarrow>
        Inr \<lparr>set_direccion = dir, set_ciudad = ciu, set_estado_provincia = est,
             set_codigo_postal = cp, set_pais = pa, set_updated_at = now\<rparr>)))))"

text \<open>\<open>address.update(updates)\<close> assigns the members that \<open>updates\<close> has.\<close>

definition apply_updates :: "updates \<Rightarrow> shipping_address \<Rightarrow> shipping_address" where
  "apply_updates u a =
     a\<lparr>direccion := (case set_direccion u of None \<Rightarrow> direccion a | Some v \<Rightarrow> v),
       ciudad := (case set_ciudad u of None \<Rightarrow> ciudad a | Some v \<Rightarrow> v),
       estado_provincia := (case set_estado_provincia u of None \<Rightarrow> estado_provincia a | Some v \<Rightarrow> v),
       codigo_postal := (case set_codigo_postal u of None \<Rightarrow> codigo_postal a | Some v \<Rightarrow> v),
       pais := (case set_pais u of None \<Rightarrow> pais a | Some v \<Rightarrow> v),
       updated_at := set_updated_at u\<rparr>"

definition updateShippingAddress ::
  "int option \<Rightarrow> address_fields \<Rightarrow> int \<Rightarrow> bool \<Rightarrow> int \<Rightarrow> db \<Rightarrow> response \<times> db" where
  "updateShippingAddress id_ShippingAddress b userId isAdmin now d =
     (case id_ShippingAddress of
        None \<Rightarrow> (respond 400 (Error ''Shipping address ID is required''), d)
      | Some k \<Rightarrow>
          (case ShippingAddress_findByPk_required d k of
             None \<Rightarrow> (respond 404 (Error ''Shipping address not found''), d)
           | Some address \<Rightarrow>
               if usuario_id address \<noteq> userId \<and> \<not> isAdmin
               then (respond 403 (Error ''Not authorized to update this address''), d)
               else
                 (case (if truthy (body_codigo_postal b)
                        then map_sum id postalCodeRegex_test (trim_val (body_codigo_postal b))
                        else Inr True) of
                    Inl e \<Rightarrow> (respond 500 (Error ''Error updating shipping address''), d)
                  | Inr ok \<Rightarrow>
                      if \<not> ok then (respond 400 (Error ''Invalid postal code format''), d)
                      else
                        (case prepare_updates b now of
                           Inl e \<Rightarrow> (respond 500 (Error ''Error updating shipping address''), d)
                         | Inr updates \<Rightarrow>
                             let d' = ShippingAddress_update d (apply_updates updates)
                                        (\<lambda>a. addr_id a = addr_id address)
                             in (respond 200
                                   (AddressData ''Shipping address updated successfully''
                                      (ShippingAddress_findByPk_include d' (addr_id address))),
                                 d')))))"

text \<open>
  \<open>setDefaultAddress\<close> reads the path parameter and \<open>usuario_id\<close> of the body and checks
  neither; both are keys here.  The two updates run in one transaction.
\<close>

definition setDefaultAddress :: "int \<Rightarrow> int \<Rightarrow> db \<Rightarrow> response \<times> db" where
  "setDefaultAddress id_ShippingAddress body_usuario d =
     (let d1 = ShippingAddress_update d (\<lambda>a. a\<lparr>is_default := False\<rparr>)
                 (\<lambda>a. usuario_id a = body_usuario);
          d2 = ShippingAddress_update d1 (\<lambda>a. a\<lparr>is_default := True\<rparr>)
                 (\<lambda>a. addr_id a = id_ShippingAddress)
      in (respond 200 (Message ''Default address updated successfully''), d2))"

text \<open>\<open>addressIds\<close> is an array of keys; \<open>where: {id: addressIds}\<close> is \<open>id IN (...)\<close>.\<close>

definition bulkDeleteAddresses :: "int list \<Rightarrow> int \<Rightarrow> db \<Rightarrow> response \<times> db" where
  "bulkDeleteAddresses addressIds userId d =
     (let d' = ShippingAddress_destroy d
                 (\<lambda>a. addr_id a \<in> set addressIds \<and> usuario_id a = userId)
      in (respond 200
            (CountData ''Addresses deleted successfully'' (int (length addressIds))),
          d'))"

section \<open>The second shipping address controller\<close>

text \<open>
  The file \<open>src/unnamed/part_001\<close> holds another controller with handlers of the same
  names; they carry the suffix \<open>_minimal\<close> here.  Its \<open>create\<close> passes no timestamps,
  which then take the clock value as their column default.
\<close>

definition createShippingAddress_minimal :: "create_body \<Rightarrow> int \<Rightarrow> db \<Rightarrow> response \<times> db" where
  "createShippingAddress_minimal b now d =
     (if \<not> id_truthy (body_usuario_id b) \<or> \<not> truthy (body_direccion b) \<or>
         \<not> truthy (body_ciudad b) \<or> \<not> truthy (body_estado_provincia b) \<or>
         \<not> truthy (body_codigo_postal b) \<or> \<not> truthy (body_pais b)
      then (respond 400 (Error ''All fields are required''), d)
      else
        (case body_usuario_id b of
          None \<Rightarrow> (respond 400 (Error ''All fields are required''), d)
        | Some usuarioId \<Rightarrow>
            if ShippingAddress_count d (\<lambda>a. usuario_id a = usuarioId) \<ge> 5
            then (respond 400 (Error ''Maximum number of addresses reached (5)''), d)
            else
              (case trimmed_fields b of
                 Inl e \<Rightarrow> (respond 500 (Error ''Error creating shipping address''), d)
               | Inr (dir, ciu, est, cp, pa) \<Rightarrow>
                   (case ShippingAddress_create d usuarioId dir ciu est cp pa now now of
                      (Inl e, d') \<Rightarrow>
                        (respond 500 (Error ''Error creating shipping address''), d')
                    | (Inr shippingAddress, d') \<Rightarrow>
                        (respond 201
                           (CreatedData ''Shipping address created successfully'' shippingAddress),
                         d')))))"

definition getShippingAddressesByUserId_minimal ::
  "int option \<Rightarrow> jsstring option \<Rightarrow> jsstring option \<Rightarrow> db \<Rightarrow> response" where
  "getShippingAddressesByUserId_minimal param_usuario_id query_page query_limit d =
     (case param_usuario_id of
        None \<Rightarrow> respond 400 (Error ''User ID is required'')
      | Some usuarioId \<Rightarrow>
          if ShippingAddress_count d (\<lambda>a. usuario_id a = usuarioId) = 0
          then respond 404 (Message ''No shipping addresses found for this user'')
          else
            let page = or_default (parseInt query_page) 1;
                limit = or_default (parseInt query_limit) 10;
                offset = js_times (js_minus page 1) limit
            in (case ShippingAddress_findAndCountAll d (\<lambda>a. usuario_id a = usuarioId) limit offset of
                  Inl e \<Rightarrow> respond 500 (Error ''Error retrieving shipping addresses'')
                | Inr (count, rows) \<Rightarrow>
                    let totalPages = Math_ceil_div count limit
                    in respond 200
                         (PageData ''Shipping addresses retrieved successfully'' None rows
                            \<lparr>currentPage = page, totalPages = totalPages,
                             totalItems = count, itemsPerPage = limit\<rparr>)))"

section \<open>The user controller\<close>


section \<open>Notions used in the properties\<close>

text \<open>\<open>ShippingAddress.findAll({where: {usuario_id}})\<close>: all addresses a user owns.\<close>

definition addresses_of_user :: "db \<Rightarrow> int \<Rightarrow> shipping_address list" where
  "addresses_of_user d uid = filter (\<lambda>a. usuario_id a = uid) (ShippingAddresses d)"

text \<open>
  The column value expected after a successful update: a supplied text, that is a
  non-empty string, is stored trimmed; otherwise the column keeps its value.
\<close>

definition expected_value :: "jsval \<Rightarrow> jsstring \<Rightarrow> jsstring" where
  "expected_value x old = (case x of JStr s \<Rightarrow> if s = [] then old else trim s | _ \<Rightarrow> old)"

text \<open>
  A field value on which \<open>if (x) updates.f = x.trim()\<close> does not throw: a string, or a
  falsy value.
\<close>

definition applicable :: "jsval \<Rightarrow> bool" where
  "applicable x = (case x of JStr s \<Rightarrow> True | _ \<Rightarrow> \<not> truthy x)"

text \<open>
  An update body that the handler applies: every field is a string or a falsy value,
  and the postal code, when it is a non-empty string, matches the pattern after
  trimming.
\<close>

definition well_formed_update :: "'a address_fields_scheme \<Rightarrow> bool" where
  "well_formed_update b \<longleftrightarrow>
     applicable (body_direccion b) \<and> applicable (body_ciudad b) \<and>
     applicable (body_estado_provincia b) \<and> applicable (body_codigo_postal b) \<and>
     applicable (body_pais b) \<and>
     (case body_codigo_postal b of
        JStr s \<Rightarrow> s = [] \<or> postalCodeRegex_test (trim s)
      | _ \<Rightarrow> True)"

subsection \<open>Example data\<close>

definition example_user :: "int \<Rightarrow> user" where
  "example_user k =
     \<lparr>user_id = k, firstName = js ''Ana'', lastName_father = js ''Paz'',
      lastName_mother = js ''Rey'', nombre = js ''Ana'', email = js ''ana@example.com'',
      hashed_password = js ''$2a$10$abc''\<rparr>"

definition example_address :: "int \<Rightarrow> int \<Rightarrow> bool \<Rightarrow> int \<Rightarrow> shipping_address" where
  "example_address k uid dflt t =
     \<lparr>addr_id = k, usuario_id = uid, direccion = js ''Av. Sol 123'', ciudad = js ''Cusco'',
      estado_provincia = js ''Cusco'', codigo_postal = js ''08000'', pais = js ''Peru'',
      is_default = dflt, created_at = t, updated_at = t\<rparr>"

text \<open>
  Three users; user 1 owns the addresses 1 and 3, user 2 owns the address 2 and user 3
  owns none.
\<close>

definition example_db :: db where
  "example_db =
     \<lparr>Users = [example_user 1, example_user 2, example_user 3],
      ShippingAddresses = [example_address 1 1 True 10, example_address 2 2 False 20,
                           example_address 3 1 False 30],
      next_addr_id = 4\<rparr>"

text \<open>A partial update that supplies the street only.\<close>

definition example_fields :: address_fields where
  "example_fields =
     \<lparr>body_direccion = JStr (js ''  Jr. Luna 45 ''), body_ciudad = JUndefined,
      body_estado_provincia = JUndefined, body_codigo_postal = JUndefined,
      body_pais = JUndefined\<rparr>"

text \<open>A create request for user 1 with every field supplied.\<close>

definition example_create_body :: create_body where
  "example_create_body =
     \<lparr>body_direccion = JStr (js '' Calle Mar 9 ''), body_ciudad = JStr (js ''Lima''),
      body_estado_provincia = JStr (js ''Lima ''), body_codigo_postal = JStr (js '' 15001-0042''),
      body_pais = JStr (js ''Peru''), body_usuario_id = Some 1\<rparr>"

text \<open>User 1 owns four addresses.\<close>

definition example_db_four :: db where
  "example_db_four =
     \<lparr>Users = [example_user 1, example_user 2],
      ShippingAddresses = [example_address 1 1 True 10, example_address 2 1 False 20,
                           example_address 3 1 False 30, example_address 4 1 False 40],
      next_addr_id = 5\<rparr>"

text \<open>A partial update that supplies the empty string as street, and a city.\<close>

definition example_fields_empty_street :: address_fields where
  "example_fields_empty_street =
     \<lparr>body_direccion = JStr [], body_ciudad = JStr (js '' Puno ''),
      body_estado_provincia = JUndefined, body_codigo_postal = JUndefined,
      body_pais = JUndefined\<rparr>"

text \<open>The partial update of the example with an empty postal code string added.\<close>

definition example_fields_empty_postal :: address_fields where
  "example_fields_empty_postal = example_fields\<lparr>body_codigo_postal := JStr []\<rparr>"

text \<open>A create request for user 3 whose postal code is malformed.\<close>

definition example_create_bad_postal :: create_body where
  "example_create_bad_postal =
     \<lparr>body_direccion = JStr (js ''Calle Mar 9''), body_ciudad = JStr (js ''Lima''),
      body_estado_provincia = JStr (js ''Lima''), body_codigo_postal = JStr (js ''12345-67''),
      body_pais = JStr (js ''Peru''), body_usuario_id = Some 3\<rparr>"

text \<open>A partial update that supplies a postal code only.\<close>

definition example_fields_postal :: address_fields where
  "example_fields_postal =
     \<lparr>body_direccion = JUndefined, body_ciudad = JUndefined,
      body_estado_provincia = JUndefined, body_codigo_postal = JStr (js '' 12345 ''),
      body_pais = JUndefined\<rparr>"


section \<open>Properties\<close>

lemmas example_defs = example_db_def example_address_def example_user_def js_def

subsection \<open>Numbers\<close>

lemma pow53_lt: "(2::int) ^ 53 < 2 ^ 1024"
  by simp

lemma round_magnitude_small: "n < 2 ^ 53 \<Longrightarrow> round_magnitude n = n"
  by (simp add: round_magnitude_def)

lemma to_number_small: "\<bar>n\<bar> < 2 ^ 53 \<Longrightarrow> to_number n = Num n"
  by (auto simp: to_number_def round_magnitude_small Let_def)

lemma round_magnitude_large:
  assumes "2 ^ 53 \<le> n"
  shows "2 ^ 53 \<le> round_magnitude n"
proof -
  define e where "e = nat (bitlen n - 53)"
  define q where "q = n div 2 ^ e"
  define r where "r = n mod 2 ^ e"
  have p53: "(0::int) < 2 ^ 53" by (rule zero_less_power) simp
  have pos: "0 < n" using assms p53 by linarith
  from bitlen_bounds [OF pos] have lo: "2 ^ nat (bitlen n - 1) \<le> n" and hi: "n < 2 ^ nat (bitlen n)"
    by blast+
  have "(2::int) ^ 53 < 2 ^ nat (bitlen n)" using assms hi by linarith
  then have "53 < nat (bitlen n)" by (rule power_less_imp_less_exp [rotated]) simp
  then have b: "54 \<le> bitlen n" by linarith
  then have e1: "1 \<le> e" and eq: "nat (bitlen n - 1) = 52 + e"
    by (simp_all add: e_def)
  have lo': "(2::int) ^ 52 * 2 ^ e \<le> n" using lo unfolding eq power_add .
  have pe: "(0::int) < 2 ^ e" by (rule zero_less_power) simp
  have "(2::int) ^ 52 * 2 ^ e div 2 ^ e \<le> n div 2 ^ e"
    using lo' pe by (intro zdiv_mono1) simp_all
  then have q52: "(2::int) ^ 52 \<le> q" using pe unfolding q_def by (simp only: nonzero_mult_div_cancel_right) 
  have "(2::int) ^ 1 \<le> 2 ^ e" using e1 by (intro power_increasing) simp_all
  then have e2: "(2::int) \<le> 2 ^ e" by simp
  have "(2::int) ^ 52 * 2 \<le> q * 2 ^ e"
    using q52 e2 by (intro mult_mono) simp_all
  then have base: "(2::int) ^ 53 \<le> q * 2 ^ e" by simp
  have "q * 2 ^ e \<le> (q + 1) * 2 ^ e" using pe by (simp add: distrib_right)
  with base have up: "(2::int) ^ 53 \<le> (q + 1) * 2 ^ e" by linarith
  have rm: "round_magnitude n =
          (if 2 * r > 2 ^ e \<or> (2 * r = 2 ^ e \<and> odd q) then q + 1 else q) * 2 ^ e"
    using assms unfolding round_magnitude_def e_def q_def r_def Let_def
    by (simp only: not_less [symmetric] if_False)
  show ?thesis
  proof (cases "2 * r > 2 ^ e \<or> (2 * r = 2 ^ e \<and> odd q)")
    case True
    then have "round_magnitude n = (q + 1) * 2 ^ e" unfolding rm by (simp only: if_True)
    with up show ?thesis by (simp only:)
  next
    case False
    then have "round_magnitude n = q * 2 ^ e" unfolding rm by (simp only: if_False)
    with base show ?thesis by (simp only:)
  qed
qed

lemma round_magnitude_nonneg:
  assumes "0 \<le> n"
  shows "0 \<le> round_magnitude n"
proof (cases "n < 2 ^ 53")
  case True
  with assms show ?thesis by (simp only: round_magnitude_small)
next
  case False
  then have "2 ^ 53 \<le> round_magnitude n" by (intro round_magnitude_large) (simp only: not_less)
  moreover have "(0::int) \<le> 2 ^ 53" by (rule zero_le_power) simp
  ultimately show ?thesis by (rule order_trans [rotated])
qed

lemma to_number_cases:
  "to_number n =
     (if round_magnitude \<bar>n\<bar> \<ge> 2 ^ 1024 then (if n < 0 then NegInfinity else PosInfinity)
      else Num (if n < 0 then - round_magnitude \<bar>n\<bar> else round_magnitude \<bar>n\<bar>))"
  unfolding to_number_def Let_def ..

lemma to_number_nonneg:
  assumes "0 \<le> n"
  shows "to_number n = PosInfinity \<or> (\<exists>m. to_number n = Num m \<and> 0 \<le> m)"
proof -
  have a: "\<bar>n\<bar> = n" "\<not> n < 0" using assms by simp_all
  have nn: "0 \<le> round_magnitude n" using assms by (rule round_magnitude_nonneg)
  show ?thesis
  proof (cases "2 ^ 1024 \<le> round_magnitude n")
    case True
    then have "to_number n = PosInfinity"
      by (simp only: to_number_cases a if_True if_False)
    then show ?thesis ..
  next
    case False
    then have "to_number n = Num (round_magnitude n)"
      by (simp only: to_number_cases a if_True if_False)
    with nn show ?thesis by blast
  qed
qed

lemma to_number_large:
  assumes "2 ^ 53 \<le> n"
  shows "to_number n = PosInfinity \<or> (\<exists>m. to_number n = Num m \<and> 2 ^ 53 \<le> m)"
proof -
  have "(0::int) \<le> 2 ^ 53" by (rule zero_le_power) simp
  with assms have "0 \<le> n" by linarith
  then have a: "\<bar>n\<bar> = n" "\<not> n < 0" by simp_all
  have nn: "2 ^ 53 \<le> round_magnitude n" using assms by (rule round_magnitude_large)
  show ?thesis
  proof (cases "2 ^ 1024 \<le> round_magnitude n")
    case True
    then have "to_number n = PosInfinity"
      by (simp only: to_number_cases a if_True if_False)
    then show ?thesis ..
  next
    case False
    then have "to_number n = Num (round_magnitude n)"
      by (simp only: to_number_cases a if_True if_False)
    with nn show ?thesis by blast
  qed
qed

lemma to_number_small_nonneg: "0 \<le> n \<Longrightarrow> n < 2 ^ 53 \<Longrightarrow> to_number n = Num n"
  by (rule to_number_small) simp

lemmas parse_defs = js_def parseInt_def parse_magnitude_def radix_digits_def digits_value_def
  digit_value_def is_ws_def

lemma parseInt_7: "parseInt (Some (js ''7'')) = Num 7"
  by (simp add: parse_defs to_number_small)

lemma to_number_e18: "to_number 1000000000000000000 = Num 1000000000000000000"
  by code_simp
lemma to_number_e18m: "to_number 999999999999999999 = Num 1000000000000000000"
  by code_simp
lemma to_number_e19: "to_number 10000000000000000000 = Num 10000000000000000000"
  by code_simp

lemma parseInt_e18: "parseInt (Some (js ''1000000000000000000'')) = Num 1000000000000000000"
  by (simp add: parse_defs to_number_e18)

lemma page_of_e18: "page_of (Some (js ''1000000000000000000'')) = Num 1000000000000000000"
  by (simp add: page_of_def parseInt_e18 or_default_def Math_max_def)

lemma limit_of_None: "limit_of None = Num 10"
  by (simp add: limit_of_def parseInt_def or_default_def Math_max_def Math_min_def)

lemma huge_page_refused:
  "\<not> store_accepts (js_times (js_minus (page_of (Some (js ''1000000000000000000''))) 1)
                      (limit_of None))"
  by (simp add: page_of_e18 limit_of_None js_minus_def to_number_e18m js_times_def to_number_e19
      store_accepts_def sql_bigint_max_def)

lemma limit_of_Num: "\<exists>l. limit_of q = Num l \<and> 1 \<le> l \<and> l \<le> 50"
  by (cases "parseInt q") (auto simp: limit_of_def or_default_def Math_max_def Math_min_def)

lemma page_of_cases: "page_of q = PosInfinity \<or> (\<exists>p. page_of q = Num p \<and> 1 \<le> p)"
  by (cases "parseInt q") (auto simp: page_of_def or_default_def Math_max_def)

lemma sql_bigint_max_ge: "2 ^ 53 \<le> sql_bigint_max"
  by (simp add: sql_bigint_max_def)

lemma store_accepts_limit: "store_accepts (limit_of q)"
  using limit_of_Num [of q] by (auto simp: store_accepts_def sql_bigint_max_def)

lemma store_accepts_Num: "store_accepts x \<longleftrightarrow> (\<exists>n. x = Num n \<and> 0 \<le> n \<and> n \<le> sql_bigint_max)"
  by (cases x) (auto simp: store_accepts_def)

text \<open>Up to page \<open>10^14\<close> the offset is exact and the store accepts it.\<close>

lemma safe_page_offset:
  assumes p: "page_of qp = Num p" and bound: "p \<le> 10 ^ 14" and l: "limit_of ql = Num l"
  shows "js_times (js_minus (page_of qp) 1) (limit_of ql) = Num ((p - 1) * l) \<and>
         store_accepts (js_times (js_minus (page_of qp) 1) (limit_of ql))"
proof -
  from page_of_cases [of qp] p have p1: "1 \<le> p" by auto
  from limit_of_Num [of ql] l have l1: "1 \<le> l" "l \<le> 50" by auto
  have "\<bar>p - 1\<bar> < 2 ^ 53" using p1 bound by simp
  then have m: "js_minus (page_of qp) 1 = Num (p - 1)"
    by (simp add: p js_minus_def to_number_small)
  have "(p - 1) * l \<le> 10 ^ 14 * 50"
    using p1 bound l1 by (intro mult_mono) simp_all
  moreover have "0 \<le> (p - 1) * l" using p1 l1 by simp
  ultimately have small: "0 \<le> (p - 1) * l" "(p - 1) * l < 2 ^ 53" by simp_all
  then have "\<bar>(p - 1) * l\<bar> < 2 ^ 53" by simp
  then have t: "js_times (js_minus (page_of qp) 1) (limit_of ql) = Num ((p - 1) * l)"
    by (simp add: m l js_times_def to_number_small)
  have "(p - 1) * l \<le> sql_bigint_max" using small(2) sql_bigint_max_ge by linarith
  with small(1) show ?thesis by (simp add: t store_accepts_def)
qed

subsection \<open>The store\<close>

lemma wf_db_has_user:
  assumes "wf_db d" "a \<in> set (ShippingAddresses d)"
  shows "has_user d a"
proof -
  from assms have "usuario_id a \<in> set (map user_id (Users d))"
    by (auto simp: wf_db_def list_all_iff)
  then obtain u where "u \<in> set (Users d)" "user_id u = usuario_id a" by auto
  then have "find (\<lambda>u. user_id u = usuario_id a) (Users d) \<noteq> None"
    by (auto simp: find_None_iff)
  then show ?thesis by (simp add: has_user_def User_findByPk_def)
qed

lemma findByPk_required_eq:
  assumes "wf_db d"
  shows "ShippingAddress_findByPk_required d k = ShippingAddress_findByPk d k"
  unfolding ShippingAddress_findByPk_required_def ShippingAddress_findByPk_def
  by (rule find_cong) (auto dest: wf_db_has_user [OF assms])

lemma find_filter_singleton:
  "distinct (map key rows) \<Longrightarrow> find (\<lambda>x. key x = k) rows = Some a \<Longrightarrow>
     filter (\<lambda>x. key x = k) rows = [a]"
proof (induction rows)
  case Nil
  then show ?case by simp
next
  case (Cons x xs)
  show ?case
  proof (cases "key x = k")
    case True
    with Cons.prems have "a = x" by simp
    moreover from True Cons.prems have "k \<notin> key ` set xs" by simp
    then have "\<forall>y \<in> set xs. key y \<noteq> k" by blast
    then have "filter (\<lambda>x. key x = k) xs = []" by (simp add: filter_empty_conv)
    ultimately show ?thesis using True by simp
  next
    case False
    with Cons show ?thesis by simp
  qed
qed

lemma find_Some_mem: "find P xs = Some a \<Longrightarrow> a \<in> set xs \<and> P a"
  by (induction xs) (auto split: if_splits)

lemma wf_example_db: "wf_db example_db"
  by (simp add: wf_db_def example_defs)

lemma wf_example_db_four: "wf_db example_db_four"
  by (simp add: wf_db_def example_db_four_def example_address_def example_user_def)

subsection \<open>Bulk deletion\<close>

lemma bulkDelete_rows:
  "ShippingAddresses (snd (bulkDeleteAddresses ids caller d)) =
     filter (\<lambda>a. \<not> (addr_id a \<in> set ids \<and> usuario_id a = caller)) (ShippingAddresses d)"
  by (simp add: bulkDeleteAddresses_def ShippingAddress_destroy_def Let_def)

lemma length_filter_keys_le:
  assumes "distinct (map key rows)"
  shows "length (filter (\<lambda>a. key a \<in> set ks \<and> Q a) rows) \<le> length ks"
proof -
  let ?sel = "filter (\<lambda>a. key a \<in> set ks \<and> Q a) rows"
  have d: "distinct (map key ?sel)" using assms by (rule distinct_map_filter)
  have "length ?sel = length (map key ?sel)" by simp
  also have "\<dots> = card (set (map key ?sel))" using d by (simp only: distinct_card)
  also have "\<dots> \<le> card (set ks)" by (rule card_mono) auto
  also have "\<dots> \<le> length ks" by (rule card_length)
  finally show ?thesis .
qed

text \<open>
  C4: \<open>bulkDeleteAddresses\<close> answers 200 with \<open>deletedCount\<close> the number of ids
  requested; a row is left exactly when it was there before and is not both listed and
  owned by the caller.  So the caller's listed addresses go, every other user's
  addresses stay as they are, and no user is touched.  With unique keys the number of
  rows that really went is at most the reported count (and can be smaller).
\<close>

theorem bulkDeleteAddresses_deletes_owned_reports_requested:
  "fst (bulkDeleteAddresses ids caller d) =
      respond 200 (CountData ''Addresses deleted successfully'' (int (length ids))) \<and>
   (\<forall>a. a \<in> set (ShippingAddresses (snd (bulkDeleteAddresses ids caller d))) \<longleftrightarrow>
        a \<in> set (ShippingAddresses d) \<and> \<not> (addr_id a \<in> set ids \<and> usuario_id a = caller)) \<and>
   addresses_of_user (snd (bulkDeleteAddresses ids caller d)) caller =
      filter (\<lambda>a. addr_id a \<notin> set ids) (addresses_of_user d caller) \<and>
   (\<forall>other. other \<noteq> caller \<longrightarrow>
      addresses_of_user (snd (bulkDeleteAddresses ids caller d)) other = addresses_of_user d other) \<and>
   Users (snd (bulkDeleteAddresses ids caller d)) = Users d \<and>
   (wf_db d \<longrightarrow>
      length (ShippingAddresses d) - length (ShippingAddresses (snd (bulkDeleteAddresses ids caller d)))
        \<le> length ids)"
proof (intro conjI allI impI)
  show "fst (bulkDeleteAddresses ids caller d) =
      respond 200 (CountData ''Addresses deleted successfully'' (int (length ids)))"
    by (simp add: bulkDeleteAddresses_def Let_def)
next
  fix a
  show "a \<in> set (ShippingAddresses (snd (bulkDeleteAddresses ids caller d))) \<longleftrightarrow>
        a \<in> set (ShippingAddresses d) \<and> \<not> (addr_id a \<in> set ids \<and> usuario_id a = caller)"
    by (simp only: bulkDelete_rows set_filter mem_Collect_eq)
next
  show "addresses_of_user (snd (bulkDeleteAddresses ids caller d)) caller =
      filter (\<lambda>a. addr_id a \<notin> set ids) (addresses_of_user d caller)"
    unfolding addresses_of_user_def bulkDelete_rows filter_filter by (rule filter_cong) auto
next
  fix other assume "other \<noteq> caller"
  then show "addresses_of_user (snd (bulkDeleteAddresses ids caller d)) other =
      addresses_of_user d other"
    unfolding addresses_of_user_def bulkDelete_rows by (auto intro: filter_cong)
next
  show "Users (snd (bulkDeleteAddresses ids caller d)) = Users d"
    by (simp add: bulkDeleteAddresses_def ShippingAddress_destroy_def Let_def)
next
  assume wf: "wf_db d"
  let ?P = "\<lambda>a. addr_id a \<in> set ids \<and> usuario_id a = caller"
  have "length (ShippingAddresses d) =
          length (filter ?P (ShippingAddresses d)) +
          length (filter (\<lambda>a. \<not> ?P a) (ShippingAddresses d))"
    by (rule sum_length_filter_compl [symmetric])
  moreover have "length (filter ?P (ShippingAddresses d)) \<le> length ids"
    using wf by (intro length_filter_keys_le) (simp add: wf_db_def)
  ultimately show
    "length (ShippingAddresses d) -
       length (ShippingAddresses (snd (bulkDeleteAddresses ids caller d))) \<le> length ids"
    unfolding bulkDelete_rows by linarith
qed

text \<open>
  User 1 asks to delete the ids 1, 2 and 7: 1 is theirs, 2 belongs to user 2 and 7 does
  not exist.  One row goes, the report says 3.
\<close>

theorem bulkDeleteAddresses_witness:
  "wf_db example_db \<and>
   fst (bulkDeleteAddresses [1, 2, 7] 1 example_db) =
      respond 200 (CountData ''Addresses deleted successfully'' 3) \<and>
   map addr_id (ShippingAddresses (snd (bulkDeleteAddresses [1, 2, 7] 1 example_db))) = [2, 3] \<and>
   addresses_of_user (snd (bulkDeleteAddresses [1, 2, 7] 1 example_db)) 2 =
      addresses_of_user example_db 2 \<and>
   length (ShippingAddresses example_db) -
     length (ShippingAddresses (snd (bulkDeleteAddresses [1, 2, 7] 1 example_db))) \<le> 3"
proof -
  note t = bulkDeleteAddresses_deletes_owned_reports_requested [of "[1, 2, 7]" 1 example_db]
  have a: "fst (bulkDeleteAddresses [1, 2, 7] 1 example_db) =
      respond 200 (CountData ''Addresses deleted successfully'' 3)"
    using t by simp
  have c: "addresses_of_user (snd (bulkDeleteAddresses [1, 2, 7] 1 example_db)) 2 =
      addresses_of_user example_db 2"
    using t by simp
  have n: "length (ShippingAddresses example_db) -
     length (ShippingAddresses (snd (bulkDeleteAddresses [1, 2, 7] 1 example_db))) \<le> 3"
    using t wf_example_db by simp
  have b: "map addr_id (ShippingAddresses (snd (bulkDeleteAddresses [1, 2, 7] 1 example_db))) =
      [2, 3]"
    by (simp add: bulkDelete_rows example_defs)
  show ?thesis using a b c n wf_example_db by simp
qed

subsection \<open>The default address\<close>



lemma setDefault_rows:
  "ShippingAddresses (snd (setDefaultAddress k uid d)) =
     map (\<lambda>a. if addr_id a = k then a\<lparr>is_default := True\<rparr>
              else if usuario_id a = uid then a\<lparr>is_default := False\<rparr> else a)
       (ShippingAddresses d)"
  by (simp add: setDefaultAddress_def ShippingAddress_update_def Let_def o_def)

lemma clear_then_set_defaults:
  "filter is_default (filter (\<lambda>a. usuario_id a = uid)
     (map (\<lambda>a. if addr_id a = k then a\<lparr>is_default := True\<rparr>
               else if usuario_id a = uid then a\<lparr>is_default := False\<rparr> else a) rows)) =
   map (\<lambda>a. a\<lparr>is_default := True\<rparr>)
     (filter (\<lambda>a. addr_id a = k) (filter (\<lambda>a. usuario_id a = uid) rows))"
  by (induction rows) auto

lemma clear_then_set_others:
  "other \<noteq> uid \<Longrightarrow> \<forall>a \<in> set rows. addr_id a = k \<longrightarrow> usuario_id a = uid \<Longrightarrow>
   filter (\<lambda>a. usuario_id a = other)
     (map (\<lambda>a. if addr_id a = k then a\<lparr>is_default := True\<rparr>
               else if usuario_id a = uid then a\<lparr>is_default := False\<rparr> else a) rows) =
   filter (\<lambda>a. usuario_id a = other) rows"
  by (induction rows) auto

lemma setDefault_defaults:
  "filter is_default (addresses_of_user (snd (setDefaultAddress k uid d)) uid) =
     map (\<lambda>a. a\<lparr>is_default := True\<rparr>)
       (filter (\<lambda>a. addr_id a = k) (addresses_of_user d uid))"
  unfolding addresses_of_user_def setDefault_rows by (rule clear_then_set_defaults)

text \<open>
  C1 (as amended): when the address \<open>k\<close> exists and belongs to the user \<open>uid\<close>,
  \<open>setDefaultAddress\<close> answers 200 and afterwards the addresses of \<open>uid\<close> with
  \<open>is_default\<close> set are exactly one, the address \<open>k\<close>; the addresses of every other
  user are as before.
\<close>

theorem setDefaultAddress_owned_address:
  assumes wf: "wf_db d"
    and found: "ShippingAddress_findByPk d k = Some a"
    and owner: "usuario_id a = uid"
  shows "fst (setDefaultAddress k uid d) =
           respond 200 (Message ''Default address updated successfully'') \<and>
         filter is_default (addresses_of_user (snd (setDefaultAddress k uid d)) uid) =
           [a\<lparr>is_default := True\<rparr>] \<and>
         (\<forall>other. other \<noteq> uid \<longrightarrow>
            addresses_of_user (snd (setDefaultAddress k uid d)) other = addresses_of_user d other)"
proof (intro conjI allI impI)
  show "fst (setDefaultAddress k uid d) =
          respond 200 (Message ''Default address updated successfully'')"
    by (simp add: setDefaultAddress_def Let_def)
next
  from wf have dist: "distinct (map addr_id (ShippingAddresses d))" by (simp add: wf_db_def)
  from found have single: "filter (\<lambda>x. addr_id x = k) (ShippingAddresses d) = [a]"
    unfolding ShippingAddress_findByPk_def by (rule find_filter_singleton [OF dist])
  have "filter (\<lambda>x. addr_id x = k) (addresses_of_user d uid) =
          filter (\<lambda>x. usuario_id x = uid) (filter (\<lambda>x. addr_id x = k) (ShippingAddresses d))"
    unfolding addresses_of_user_def filter_filter by (rule filter_cong) auto
  also have "\<dots> = [a]" using single owner by simp
  finally show "filter is_default (addresses_of_user (snd (setDefaultAddress k uid d)) uid) =
      [a\<lparr>is_default := True\<rparr>]"
    by (simp add: setDefault_defaults)
next
  fix other assume ne: "other \<noteq> uid"
  from wf have dist: "distinct (map addr_id (ShippingAddresses d))" by (simp add: wf_db_def)
  from found have single: "filter (\<lambda>x. addr_id x = k) (ShippingAddresses d) = [a]"
    unfolding ShippingAddress_findByPk_def by (rule find_filter_singleton [OF dist])
  have "\<forall>x \<in> set (ShippingAddresses d). addr_id x = k \<longrightarrow> usuario_id x = uid"
  proof (intro ballI impI)
    fix x assume "x \<in> set (ShippingAddresses d)" "addr_id x = k"
    then have "x \<in> set (filter (\<lambda>x. addr_id x = k) (ShippingAddresses d))" by simp
    with single owner show "usuario_id x = uid" by simp
  qed
  with ne show "addresses_of_user (snd (setDefaultAddress k uid d)) other =
      addresses_of_user d other"
    unfolding addresses_of_user_def setDefault_rows by (rule clear_then_set_others)
qed

text \<open>
  User 1 makes their address 3 the default; address 1 was the default before.  The
  address of user 2 is untouched.
\<close>

theorem setDefaultAddress_owned_witness:
  "wf_db example_db \<and>
   ShippingAddress_findByPk example_db 3 = Some (example_address 3 1 False 30) \<and>
   fst (setDefaultAddress 3 1 example_db) =
     respond 200 (Message ''Default address updated successfully'') \<and>
   filter is_default (addresses_of_user (snd (setDefaultAddress 3 1 example_db)) 1) =
     [example_address 3 1 True 30] \<and>
   addresses_of_user (snd (setDefaultAddress 3 1 example_db)) 2 = addresses_of_user example_db 2"
proof -
  have f: "ShippingAddress_findByPk example_db 3 = Some (example_address 3 1 False 30)"
    by (simp add: ShippingAddress_findByPk_def example_defs)
  have o: "usuario_id (example_address 3 1 False 30) = 1"
    by (simp add: example_address_def)
  have e: "(example_address 3 1 False 30)\<lparr>is_default := True\<rparr> = example_address 3 1 True 30"
    by (simp add: example_address_def)
  show ?thesis
    using setDefaultAddress_owned_address [OF wf_example_db f o] wf_example_db f e by simp
qed

text \<open>
  The claim without the ownership condition fails: asked to make address 2, which
  belongs to user 2, the default of user 1, the handler answers 200, leaves user 1 with
  no default address and marks address 2 for user 2.
\<close>

theorem setDefaultAddress_foreign_address_counterexample:
  "fst (setDefaultAddress 2 1 example_db) =
     respond 200 (Message ''Default address updated successfully'') \<and>
   filter is_default (addresses_of_user (snd (setDefaultAddress 2 1 example_db)) 1) = [] \<and>
   filter is_default (addresses_of_user (snd (setDefaultAddress 2 1 example_db)) 2) =
     [example_address 2 2 True 20]"
  by (simp add: setDefaultAddress_def ShippingAddress_update_def Let_def addresses_of_user_def
      example_defs)

subsection \<open>Authorization\<close>

text \<open>
  C5: for an existing address and a caller who is neither its owner nor an admin,
  \<open>updateShippingAddress\<close> and \<open>deleteShippingAddress\<close> answer 403 and return the
  database they were given, whatever the body of the update: the check comes before any
  write.
\<close>

theorem non_owner_update_delete_forbidden:
  assumes wf: "wf_db d"
    and found: "ShippingAddress_findByPk d k = Some a"
    and other: "usuario_id a \<noteq> caller"
  shows "updateShippingAddress (Some k) b caller False now d =
           (respond 403 (Error ''Not authorized to update this address''), d) \<and>
         deleteShippingAddress (Some k) caller False d =
           (respond 403 (Error ''Not authorized to delete this address''), d)"
proof -
  have req: "ShippingAddress_findByPk_required d k = Some a"
    using found by (simp add: findByPk_required_eq [OF wf])
  show ?thesis
    using req other by (simp add: updateShippingAddress_def deleteShippingAddress_def)
qed

text \<open>User 2 tries to update and to delete address 1 of user 1.\<close>

theorem non_owner_forbidden_witness:
  "wf_db example_db \<and>
   ShippingAddress_findByPk example_db 1 = Some (example_address 1 1 True 10) \<and>
   usuario_id (example_address 1 1 True 10) \<noteq> 2 \<and>
   updateShippingAddress (Some 1) example_fields 2 False 99 example_db =
     (respond 403 (Error ''Not authorized to update this address''), example_db) \<and>
   deleteShippingAddress (Some 1) 2 False example_db =
     (respond 403 (Error ''Not authorized to delete this address''), example_db) \<and>
   ShippingAddress_findByPk (snd (deleteShippingAddress (Some 1) 2 False example_db)) 1 =
     Some (example_address 1 1 True 10)"
proof -
  have f: "ShippingAddress_findByPk example_db 1 = Some (example_address 1 1 True 10)"
    by (simp add: ShippingAddress_findByPk_def example_defs)
  have o: "usuario_id (example_address 1 1 True 10) \<noteq> 2"
    by (simp add: example_address_def)
  show ?thesis
    using non_owner_update_delete_forbidden [OF wf_example_db f o, of example_fields 99]
      wf_example_db f o by simp
qed

subsection \<open>Listing\<close>

lemma joined_where_eq:
  assumes "User_findByPk d uid = Some u"
  shows "filter (\<lambda>a. usuario_id a = uid \<and> has_user d a) (ShippingAddresses d) =
         addresses_of_user d uid"
  unfolding addresses_of_user_def using assms by (auto simp: has_user_def intro: filter_cong)

lemma findAll_Num:
  assumes "store_accepts (Num l)"
  shows "ShippingAddress_findAll d P (Num l) off =
     (case off of
        Num n \<Rightarrow>
          if store_accepts (Num n)
          then Inr (take (nat l) (drop (nat n)
                      (order_created_desc (filter P (ShippingAddresses d)))))
          else Inl QueryError
      | _ \<Rightarrow> Inl QueryError)"
  using assms by (cases off) (simp_all add: ShippingAddress_findAll_def)

text \<open>The rows of a page: \<open>limit\<close> rows after the first \<open>offset\<close> of the ordered rows.\<close>

lemma getShippingAddressesByUserId_existing_user:
  assumes user: "User_findByPk d uid = Some u"
    and l: "limit_of ql = Num l"
  shows "getShippingAddressesByUserId (Some uid) qp ql d =
     (case js_times (js_minus (page_of qp) 1) (limit_of ql) of
        Num n \<Rightarrow>
          if store_accepts (Num n)
          then
            if addresses_of_user d uid = []
            then respond 404 (Message ''No shipping addresses found for this user'')
            else respond 200
                   (PageData ''Shipping addresses retrieved successfully''
                      (Some (user_id u, firstName u @ [0x20] @ lastName_father u))
                      (take (nat l) (drop (nat n) (order_created_desc (addresses_of_user d uid))))
                      \<lparr>currentPage = page_of qp,
                       totalPages = Math_ceil_div (int (length (addresses_of_user d uid))) (Num l),
                       totalItems = int (length (addresses_of_user d uid)),
                       itemsPerPage = Num l\<rparr>)
          else respond 500 (Error ''Error retrieving shipping addresses'')
      | _ \<Rightarrow> respond 500 (Error ''Error retrieving shipping addresses''))"
proof -
  have acc: "store_accepts (Num l)" using store_accepts_limit [of ql] by (simp only: l)
  show ?thesis
    using user
    by (cases "js_times (js_minus (page_of qp) 1) (limit_of ql)")
       (simp_all add: getShippingAddressesByUserId_def ShippingAddress_findAndCountAll_def
          findAll_Num [OF acc] ShippingAddress_count_def joined_where_eq Let_def l)
qed

lemma getShippingAddressesByUserId_refused:
  assumes user: "User_findByPk d uid = Some u"
    and no: "\<not> store_accepts (js_times (js_minus (page_of qp) 1) (limit_of ql))"
  shows "getShippingAddressesByUserId (Some uid) qp ql d =
           respond 500 (Error ''Error retrieving shipping addresses'')"
proof -
  obtain l where l: "limit_of ql = Num l" using limit_of_Num by blast
  show ?thesis
    using no unfolding getShippingAddressesByUserId_existing_user [OF user l]
    by (cases "js_times (js_minus (page_of qp) 1) (limit_of ql)") simp_all
qed

lemma getShippingAddressesByUserId_accepted:
  assumes user: "User_findByPk d uid = Some u"
    and l: "limit_of ql = Num l"
    and off: "js_times (js_minus (page_of qp) 1) (limit_of ql) = Num n"
    and ok: "store_accepts (Num n)"
  shows "getShippingAddressesByUserId (Some uid) qp ql d =
           (if addresses_of_user d uid = []
            then respond 404 (Message ''No shipping addresses found for this user'')
            else respond 200
                   (PageData ''Shipping addresses retrieved successfully''
                      (Some (user_id u, firstName u @ [0x20] @ lastName_father u))
                      (take (nat l) (drop (nat n) (order_created_desc (addresses_of_user d uid))))
                      \<lparr>currentPage = page_of qp,
                       totalPages = Math_ceil_div (int (length (addresses_of_user d uid))) (Num l),
                       totalItems = int (length (addresses_of_user d uid)),
                       itemsPerPage = Num l\<rparr>))"
  using ok unfolding getShippingAddressesByUserId_existing_user [OF user l] off by simp

lemma minimal_count_zero:
  "ShippingAddress_count d (\<lambda>a. usuario_id a = uid) = 0 \<longleftrightarrow> addresses_of_user d uid = []"
  by (simp add: ShippingAddress_count_def addresses_of_user_def)

lemma page_of_7: "page_of (Some (js ''7'')) = Num 7"
  by (simp add: page_of_def parseInt_7 or_default_def Math_max_def)

text \<open>
  C3 (as amended): take an existing user who owns no address.  The handler of the full
  controller runs the page query before it tests the count, so it answers 404 with the
  message body when the store accepts the offset \<open>(page - 1) * limit\<close> and 500
  otherwise; in neither case 200 with an empty list.  For every page up to \<open>10^14\<close>
  the offset is accepted and the answer is 404.  The handler of the second controller
  counts first and answers 404 for every page and limit.
\<close>

theorem zero_addresses_not_found:
  assumes user: "User_findByPk d uid = Some u"
    and none: "addresses_of_user d uid = []"
  shows "getShippingAddressesByUserId (Some uid) qp ql d =
           (if store_accepts (js_times (js_minus (page_of qp) 1) (limit_of ql))
            then respond 404 (Message ''No shipping addresses found for this user'')
            else respond 500 (Error ''Error retrieving shipping addresses'')) \<and>
         status (getShippingAddressesByUserId (Some uid) qp ql d) \<noteq> 200 \<and>
         (\<forall>p. page_of qp = Num p \<and> p \<le> 10 ^ 14 \<longrightarrow>
            getShippingAddressesByUserId (Some uid) qp ql d =
              respond 404 (Message ''No shipping addresses found for this user'')) \<and>
         getShippingAddressesByUserId_minimal (Some uid) qp ql d =
           respond 404 (Message ''No shipping addresses found for this user'')"
proof -
  obtain l where l: "limit_of ql = Num l" using limit_of_Num by blast
  have main: "getShippingAddressesByUserId (Some uid) qp ql d =
           (if store_accepts (js_times (js_minus (page_of qp) 1) (limit_of ql))
            then respond 404 (Message ''No shipping addresses found for this user'')
            else respond 500 (Error ''Error retrieving shipping addresses''))"
  proof (cases "store_accepts (js_times (js_minus (page_of qp) 1) (limit_of ql))")
    case True
    then obtain n where n: "js_times (js_minus (page_of qp) 1) (limit_of ql) = Num n"
      by (auto simp: store_accepts_Num)
    with True have "store_accepts (Num n)" by simp
    from getShippingAddressesByUserId_accepted [OF user l n this] none True
    show ?thesis by simp
  next
    case False
    with getShippingAddressesByUserId_refused [OF user False] show ?thesis by simp
  qed
  have safe: "getShippingAddressesByUserId (Some uid) qp ql d =
      respond 404 (Message ''No shipping addresses found for this user'')"
    if "page_of qp = Num p" "p \<le> 10 ^ 14" for p
    using safe_page_offset [OF that l, THEN conjunct2] by (simp only: main if_True)
  have minimal: "getShippingAddressesByUserId_minimal (Some uid) qp ql d =
      respond 404 (Message ''No shipping addresses found for this user'')"
    using none by (simp add: getShippingAddressesByUserId_minimal_def minimal_count_zero)
  have "status (getShippingAddressesByUserId (Some uid) qp ql d) \<noteq> 200"
    by (simp add: main respond_def)
  with main safe minimal show ?thesis by blast
qed

text \<open>User 3 exists and owns nothing; they ask for page 7.\<close>

theorem zero_addresses_witness:
  "User_findByPk example_db 3 = Some (example_user 3) \<and>
   addresses_of_user example_db 3 = [] \<and>
   page_of (Some (js ''7'')) = Num 7 \<and>
   getShippingAddressesByUserId (Some 3) (Some (js ''7'')) None example_db =
     respond 404 (Message ''No shipping addresses found for this user'') \<and>
   getShippingAddressesByUserId_minimal (Some 3) (Some (js ''7'')) None example_db =
     respond 404 (Message ''No shipping addresses found for this user'')"
proof -
  have u: "User_findByPk example_db 3 = Some (example_user 3)"
    by (simp add: User_findByPk_def example_defs)
  have e: "addresses_of_user example_db 3 = []"
    by (simp add: addresses_of_user_def example_defs)
  note t = zero_addresses_not_found [OF u e, of "Some (js ''7'')" None]
  have b: "(7::int) \<le> 10 ^ 14" by simp
  have full: "getShippingAddressesByUserId (Some 3) (Some (js ''7'')) None example_db =
     respond 404 (Message ''No shipping addresses found for this user'')"
    using t [THEN conjunct2, THEN conjunct2, THEN conjunct1, THEN spec, of 7] page_of_7 b
    by blast
  have minimal: "getShippingAddressesByUserId_minimal (Some 3) (Some (js ''7'')) None example_db =
     respond 404 (Message ''No shipping addresses found for this user'')"
    using t [THEN conjunct2, THEN conjunct2, THEN conjunct2] .
  show ?thesis
    by (intro conjI u e page_of_7 full minimal)
qed

text \<open>
  User 3, who owns nothing, asks for page \<open>10^18\<close>: the offset \<open>10^19\<close> is above
  \<open>2^63 - 1\<close>, the query throws and the answer is 500, not 404.
\<close>

theorem zero_addresses_huge_page_counterexample:
  "User_findByPk example_db 3 = Some (example_user 3) \<and>
   addresses_of_user example_db 3 = [] \<and>
   getShippingAddressesByUserId (Some 3) (Some (js ''1000000000000000000'')) None example_db =
     respond 500 (Error ''Error retrieving shipping addresses'')"
proof -
  have u: "User_findByPk example_db 3 = Some (example_user 3)"
    by (simp add: User_findByPk_def example_defs)
  have e: "addresses_of_user example_db 3 = []"
    by (simp add: addresses_of_user_def example_defs)
  show ?thesis
    by (intro conjI u e getShippingAddressesByUserId_refused [OF u huge_page_refused])
qed

lemma Math_ceil_div_int: "l \<noteq> 0 \<Longrightarrow> Math_ceil_div c (Num l) = Num (- (- c div l))"
  by (simp add: Math_ceil_div_def ceiling_divide_eq_div)

lemma past_last_page:
  assumes "0 < l" and "Math_ceil_div c (Num l) = Num t" and "t < p"
  shows "c \<le> (p - 1) * l"
proof -
  from assms(1,2) have "t = \<lceil>real_of_int c / real_of_int l\<rceil>"
    by (simp add: Math_ceil_div_def)
  with assms(3) have "\<lceil>real_of_int c / real_of_int l\<rceil> \<le> p - 1" by simp
  then have "real_of_int c / real_of_int l \<le> real_of_int (p - 1)"
    by (simp only: ceiling_le_iff)
  with assms(1) have "real_of_int c \<le> real_of_int (p - 1) * real_of_int l"
    by (simp add: pos_divide_le_eq)
  then have "real_of_int c \<le> real_of_int ((p - 1) * l)" by simp
  then show ?thesis by (simp only: of_int_le_iff)
qed

text \<open>
  An offset that the rounding of doubles produced is still at least the number of rows
  before the page, as long as that number is below \<open>2^53\<close>.
\<close>

lemma offset_lower_bound:
  assumes p: "page_of qp = Num p" and l: "limit_of ql = Num l"
    and off: "js_times (js_minus (page_of qp) 1) (limit_of ql) = Num n"
    and c: "c \<le> (p - 1) * l" "c < 2 ^ 53"
  shows "c \<le> n"
proof -
  from page_of_cases [of qp] p have p1: "1 \<le> p" by auto
  from limit_of_Num [of ql] l have l1: "1 \<le> l" "l \<le> 50" by auto
  have big: "c \<le> k" if "2 ^ 53 \<le> k" for k using c(2) that by linarith
  show ?thesis
  proof (cases "p - 1 < 2 ^ 53")
    case True
    then have "\<bar>p - 1\<bar> < 2 ^ 53" using p1 by simp
    then have m: "js_minus (page_of qp) 1 = Num (p - 1)"
      by (simp add: p js_minus_def to_number_small)
    have t: "to_number ((p - 1) * l) = Num n"
      using off by (simp add: m l js_times_def)
    show ?thesis
    proof (cases "(p - 1) * l < 2 ^ 53")
      case True
      moreover have "0 \<le> (p - 1) * l" using p1 l1 by simp
      ultimately have "to_number ((p - 1) * l) = Num ((p - 1) * l)"
        by (intro to_number_small_nonneg)
      with t c(1) show ?thesis by simp
    next
      case False
      then have "2 ^ 53 \<le> (p - 1) * l" by (simp only: not_less)
      from to_number_large [OF this] t have "2 ^ 53 \<le> n" by auto
      then show ?thesis by (rule big)
    qed
  next
    case False
    then have ge: "2 ^ 53 \<le> p - 1" by (simp only: not_less)
    from to_number_large [OF ge] show ?thesis
    proof
      assume "to_number (p - 1) = PosInfinity"
      then have "js_times (js_minus (page_of qp) 1) (limit_of ql) = PosInfinity"
        using l1 by (simp add: p l js_minus_def js_times_def sign_of_def)
      with off show ?thesis by simp
    next
      assume "\<exists>m. to_number (p - 1) = Num m \<and> 2 ^ 53 \<le> m"
      then obtain m where m: "to_number (p - 1) = Num m" "2 ^ 53 \<le> m" by blast
      have "(0::int) \<le> 2 ^ 53" by (rule zero_le_power) simp
      then have "2 ^ 53 * 1 \<le> m * l" using m(2) l1 by (intro mult_mono) simp_all
      then have "2 ^ 53 \<le> m * l" by (simp only: mult_1_right)
      from to_number_large [OF this] off have "2 ^ 53 \<le> n"
        by (auto simp: p l js_minus_def js_times_def m(1))
      then show ?thesis by (rule big)
    qed
  qed
qed

text \<open>
  C10 (as amended): for an existing user the handler answers 500 when the store refuses
  the offset \<open>(page - 1) * limit\<close>, and otherwise 404 exactly when the user owns no
  address.  So a user who owns an address never gets 404, whatever page and limit are
  asked for, and gets 200 whenever the offset is accepted, which holds for every page
  up to \<open>10^14\<close>.  The 200 answer carries the requested page as a double, the limit
  and the full totals; on a page past the last one (\<open>totalPages < currentPage\<close>) the
  list of addresses is empty.
\<close>

theorem owner_with_addresses_always_ok:
  assumes user: "User_findByPk d uid = Some u"
  shows "status (getShippingAddressesByUserId (Some uid) qp ql d) =
           (if \<not> store_accepts (js_times (js_minus (page_of qp) 1) (limit_of ql)) then 500
            else if addresses_of_user d uid = [] then 404 else 200) \<and>
         (addresses_of_user d uid \<noteq> [] \<longrightarrow>
            status (getShippingAddressesByUserId (Some uid) qp ql d) \<noteq> 404) \<and>
         (addresses_of_user d uid \<noteq> [] \<and>
          store_accepts (js_times (js_minus (page_of qp) 1) (limit_of ql)) \<longrightarrow>
            (\<exists>rows. getShippingAddressesByUserId (Some uid) qp ql d =
               respond 200
                 (PageData ''Shipping addresses retrieved successfully''
                    (Some (user_id u, firstName u @ [0x20] @ lastName_father u)) rows
                    \<lparr>currentPage = page_of qp,
                     totalPages =
                       Math_ceil_div (int (length (addresses_of_user d uid))) (limit_of ql),
                     totalItems = int (length (addresses_of_user d uid)),
                     itemsPerPage = limit_of ql\<rparr>) \<and>
               (\<forall>p t. page_of qp = Num p \<and>
                      Math_ceil_div (int (length (addresses_of_user d uid))) (limit_of ql) = Num t \<and>
                      t < p \<and> (int (length (addresses_of_user d uid)) < 2 ^ 53 \<or> p \<le> 10 ^ 14)
                      \<longrightarrow> rows = []))) \<and>
         (\<forall>p. page_of qp = Num p \<and> p \<le> 10 ^ 14 \<longrightarrow>
            store_accepts (js_times (js_minus (page_of qp) 1) (limit_of ql)))"
proof -
  obtain l where l: "limit_of ql = Num l" and l1: "1 \<le> l" using limit_of_Num by blast
  let ?off = "js_times (js_minus (page_of qp) 1) (limit_of ql)"
  let ?c = "int (length (addresses_of_user d uid))"
  have st: "status (getShippingAddressesByUserId (Some uid) qp ql d) =
           (if \<not> store_accepts ?off then 500
            else if addresses_of_user d uid = [] then 404 else 200)"
  proof (cases "store_accepts ?off")
    case True
    then obtain n where n: "?off = Num n" by (auto simp: store_accepts_Num)
    with True have "store_accepts (Num n)" by simp
    from getShippingAddressesByUserId_accepted [OF user l n this] True
    show ?thesis by (simp add: respond_def)
  next
    case False
    with getShippingAddressesByUserId_refused [OF user False] show ?thesis
      by (simp add: respond_def)
  qed
  have never404: "status (getShippingAddressesByUserId (Some uid) qp ql d) \<noteq> 404"
    if "addresses_of_user d uid \<noteq> []"
    using that by (simp add: st)
  have page: "\<exists>rows. getShippingAddressesByUserId (Some uid) qp ql d =
               respond 200
                 (PageData ''Shipping addresses retrieved successfully''
                    (Some (user_id u, firstName u @ [0x20] @ lastName_father u)) rows
                    \<lparr>currentPage = page_of qp,
                     totalPages = Math_ceil_div ?c (limit_of ql),
                     totalItems = ?c, itemsPerPage = limit_of ql\<rparr>) \<and>
               (\<forall>p t. page_of qp = Num p \<and> Math_ceil_div ?c (limit_of ql) = Num t \<and>
                      t < p \<and> (?c < 2 ^ 53 \<or> p \<le> 10 ^ 14) \<longrightarrow> rows = [])"
    if ne: "addresses_of_user d uid \<noteq> []" and acc: "store_accepts ?off"
  proof -
    from acc obtain n where n: "?off = Num n" and n0: "0 \<le> n"
      by (auto simp: store_accepts_Num)
    with acc have accn: "store_accepts (Num n)" by simp
    let ?rows = "take (nat l) (drop (nat n) (order_created_desc (addresses_of_user d uid)))"
    have res: "getShippingAddressesByUserId (Some uid) qp ql d =
               respond 200
                 (PageData ''Shipping addresses retrieved successfully''
                    (Some (user_id u, firstName u @ [0x20] @ lastName_father u)) ?rows
                    \<lparr>currentPage = page_of qp,
                     totalPages = Math_ceil_div ?c (limit_of ql),
                     totalItems = ?c, itemsPerPage = limit_of ql\<rparr>)"
      using getShippingAddressesByUserId_accepted [OF user l n accn] ne by (simp add: l)
    have empty: "?rows = []"
      if p: "page_of qp = Num p" and t: "Math_ceil_div ?c (limit_of ql) = Num t" and tp: "t < p"
        and b: "?c < 2 ^ 53 \<or> p \<le> 10 ^ 14" for p t
    proof -
      have le: "?c \<le> (p - 1) * l"
        using l1 t tp by (intro past_last_page [of l ?c t p]) (simp_all add: l)
      have "?c \<le> n"
        using b
      proof
        assume "?c < 2 ^ 53"
        with offset_lower_bound [OF p l n le] show ?thesis by simp
      next
        assume "p \<le> 10 ^ 14"
        from safe_page_offset [OF p this l] n have "n = (p - 1) * l" by simp
        with le show ?thesis by simp
      qed
      then have "length (order_created_desc (addresses_of_user d uid)) \<le> nat n"
        by (simp add: order_created_desc_def)
      then show ?thesis by simp
    qed
    from res empty show ?thesis by blast
  qed
  have safe: "store_accepts ?off" if "page_of qp = Num p" "p \<le> 10 ^ 14" for p
    using safe_page_offset [OF that l] by blast
  from st never404 page safe show ?thesis by blast
qed

text \<open>User 1 owns two addresses and asks for page 7 with the default limit.\<close>

theorem owner_with_addresses_witness:
  "User_findByPk example_db 1 = Some (example_user 1) \<and>
   page_of (Some (js ''7'')) = Num 7 \<and>
   store_accepts (js_times (js_minus (page_of (Some (js ''7''))) 1) (limit_of None)) \<and>
   getShippingAddressesByUserId (Some 1) (Some (js ''7'')) None example_db =
     respond 200
       (PageData ''Shipping addresses retrieved successfully'' (Some (1, js ''Ana Paz'')) []
          \<lparr>currentPage = Num 7, totalPages = Num 1, totalItems = 2, itemsPerPage = Num 10\<rparr>)"
proof -
  have u: "User_findByPk example_db 1 = Some (example_user 1)"
    by (simp add: User_findByPk_def example_defs)
  have a: "addresses_of_user example_db 1 =
             [example_address 1 1 True 10, example_address 3 1 False 30]"
    by (simp add: addresses_of_user_def example_defs)
  have ne: "addresses_of_user example_db 1 \<noteq> []" by (simp add: a)
  have c: "Math_ceil_div 2 (Num 10) = Num 1"
    by (simp add: Math_ceil_div_int)
  have b: "(7::int) \<le> 10 ^ 14" by simp
  note t = owner_with_addresses_always_ok [OF u, of "Some (js ''7'')" None]
  have acc: "store_accepts (js_times (js_minus (page_of (Some (js ''7''))) 1) (limit_of None))"
    using t [THEN conjunct2, THEN conjunct2, THEN conjunct2, THEN spec, of 7] page_of_7 b
    by blast
  from t [THEN conjunct2, THEN conjunct2, THEN conjunct1] ne acc
  obtain rows where
    r: "getShippingAddressesByUserId (Some 1) (Some (js ''7'')) None example_db =
       respond 200
         (PageData ''Shipping addresses retrieved successfully''
            (Some (user_id (example_user 1),
                   firstName (example_user 1) @ [0x20] @ lastName_father (example_user 1))) rows
            \<lparr>currentPage = page_of (Some (js ''7'')),
             totalPages = Math_ceil_div (int (length (addresses_of_user example_db 1)))
                            (limit_of None),
             totalItems = int (length (addresses_of_user example_db 1)),
             itemsPerPage = limit_of None\<rparr>)"
    and e: "\<forall>p t. page_of (Some (js ''7'')) = Num p \<and>
              Math_ceil_div (int (length (addresses_of_user example_db 1))) (limit_of None) =
                Num t \<and>
              t < p \<and> (int (length (addresses_of_user example_db 1)) < 2 ^ 53 \<or> p \<le> 10 ^ 14)
              \<longrightarrow> rows = []"
    by blast
  have c': "Math_ceil_div (int (length (addresses_of_user example_db 1))) (limit_of None) = Num 1"
    by (simp add: a limit_of_None c)
  have "rows = []"
    using e [THEN spec, THEN spec, of 7 1] page_of_7 c' b by simp
  with r have "getShippingAddressesByUserId (Some 1) (Some (js ''7'')) None example_db =
     respond 200
       (PageData ''Shipping addresses retrieved successfully'' (Some (1, js ''Ana Paz'')) []
          \<lparr>currentPage = Num 7, totalPages = Num 1, totalItems = 2, itemsPerPage = Num 10\<rparr>)"
    unfolding page_of_7 c' limit_of_None a by (simp add: c example_user_def js_def)
  with u page_of_7 acc show ?thesis by (intro conjI)
qed

text \<open>
  User 1, who owns two addresses, asks for page \<open>10^18\<close>: the offset \<open>10^19\<close> is
  above \<open>2^63 - 1\<close>, the query throws and the answer is 500, not 200.
\<close>

theorem owner_with_addresses_huge_page_counterexample:
  "User_findByPk example_db 1 = Some (example_user 1) \<and>
   length (addresses_of_user example_db 1) = 2 \<and>
   getShippingAddressesByUserId (Some 1) (Some (js ''1000000000000000000'')) None example_db =
     respond 500 (Error ''Error retrieving shipping addresses'')"
proof -
  have u: "User_findByPk example_db 1 = Some (example_user 1)"
    by (simp add: User_findByPk_def example_defs)
  have a: "length (addresses_of_user example_db 1) = 2"
    by (simp add: addresses_of_user_def example_defs)
  show ?thesis
    by (intro conjI u a getShippingAddressesByUserId_refused [OF u huge_page_refused])
qed

subsection \<open>Creation and the limit of five\<close>

lemma find_append_fresh:
  "\<forall>x \<in> set xs. \<not> P x \<Longrightarrow> find P (xs @ ys) = find P ys"
  by (induction xs) auto

lemma count_addresses_of_user:
  "ShippingAddress_count d (\<lambda>a. usuario_id a = uid) = int (length (addresses_of_user d uid))"
  by (simp add: ShippingAddress_count_def addresses_of_user_def)

text \<open>
  C2: take an existing user \<open>uid\<close> and a create request whose six fields are non-empty
  (the five texts non-empty strings, the user id not 0) and whose postal code, trimmed,
  matches the pattern.  When the user owns at most 4 addresses, both
  \<open>createShippingAddress\<close> handlers answer 201 and append exactly one row, the
  trimmed request under a fresh key, so the user then owns one address more.  When the
  user owns 5 or more, both answer 400 with the limit error and return the database
  they were given.
\<close>

theorem create_up_to_five:
  assumes user: "User_findByPk d uid = Some u"
    and uid: "uid \<noteq> 0"
    and nonempty: "dir \<noteq> []" "ciu \<noteq> []" "est \<noteq> []" "cp \<noteq> []" "pa \<noteq> []"
    and postal: "postalCodeRegex_test (trim cp)"
    and b: "b = \<lparr>body_direccion = JStr dir, body_ciudad = JStr ciu,
                 body_estado_provincia = JStr est, body_codigo_postal = JStr cp,
                 body_pais = JStr pa, body_usuario_id = Some uid\<rparr>"
    and row: "row = \<lparr>addr_id = next_addr_id d, usuario_id = uid, direccion = trim dir,
                     ciudad = trim ciu, estado_provincia = trim est, codigo_postal = trim cp,
                     pais = trim pa, is_default = False, created_at = now, updated_at = now\<rparr>"
    and d': "d' = d\<lparr>ShippingAddresses := ShippingAddresses d @ [row],
                     next_addr_id := next_addr_id d + 1\<rparr>"
  shows "if length (addresses_of_user d uid) \<le> 4
         then status (fst (createShippingAddress b now d)) = 201 \<and>
              snd (createShippingAddress b now d) = d' \<and>
              (wf_db d \<longrightarrow> fst (createShippingAddress b now d) =
                 respond 201 (AddressData ''Shipping address created successfully''
                                (Some (row, Some (minimal_user u))))) \<and>
              createShippingAddress_minimal b now d =
                (respond 201 (CreatedData ''Shipping address created successfully'' row), d') \<and>
              length (addresses_of_user d' uid) = length (addresses_of_user d uid) + 1
         else createShippingAddress b now d =
                (respond 400 (Error ''Maximum number of addresses reached (5)''), d) \<and>
              createShippingAddress_minimal b now d =
                (respond 400 (Error ''Maximum number of addresses reached (5)''), d)"
proof (cases "length (addresses_of_user d uid) \<le> 4")
  case False
  then have "5 \<le> int (length (addresses_of_user d uid))" by simp
  then show ?thesis
    using False user uid nonempty
    by (simp add: b createShippingAddress_def createShippingAddress_minimal_def id_truthy_def
        count_addresses_of_user)
next
  case True
  then have few: "\<not> 5 \<le> int (length (addresses_of_user d uid))" by simp
  have created: "ShippingAddress_create d uid (trim dir) (trim ciu) (trim est) (trim cp) (trim pa)
                   now now = (Inr row, d')"
    using user by (simp add: ShippingAddress_create_def row d' Let_def)
  have full: "createShippingAddress b now d =
                (respond 201 (AddressData ''Shipping address created successfully''
                   (ShippingAddress_findByPk_include d' (addr_id row))), d')"
    using user uid nonempty postal few created
    by (simp add: b createShippingAddress_def id_truthy_def count_addresses_of_user
        trimmed_fields_def)
  have minimal: "createShippingAddress_minimal b now d =
                (respond 201 (CreatedData ''Shipping address created successfully'' row), d')"
    using uid nonempty few created
    by (simp add: b createShippingAddress_minimal_def id_truthy_def count_addresses_of_user
        trimmed_fields_def)
  have reread: "ShippingAddress_findByPk_include d' (addr_id row) = Some (row, Some (minimal_user u))"
    if wf: "wf_db d"
  proof -
    from wf have "\<forall>x \<in> set (ShippingAddresses d). \<not> addr_id x = next_addr_id d"
      by (auto simp: wf_db_def list_all_iff)
    then have "find (\<lambda>x. addr_id x = next_addr_id d) (ShippingAddresses d @ [row]) =
                 find (\<lambda>x. addr_id x = next_addr_id d) [row]"
      by (rule find_append_fresh)
    then have "ShippingAddress_findByPk d' (addr_id row) = Some row"
      by (simp add: ShippingAddress_findByPk_def d' row)
    moreover have "User_findByPk d' (usuario_id row) = Some u"
      using user by (simp add: User_findByPk_def d' row)
    ultimately show ?thesis by (simp add: ShippingAddress_findByPk_include_def)
  qed
  have more: "length (addresses_of_user d' uid) = length (addresses_of_user d uid) + 1"
    by (simp add: addresses_of_user_def d' row)
  show ?thesis
    using True full minimal reread more by (simp add: respond_def)
qed


lemma example_postal_ok: "postalCodeRegex_test (trim (js '' 15001-0042''))"
  by (simp add: js_def trim_def is_ws_def postalCodeRegex_test_def is_digit_def)

text \<open>
  User 1 owns four addresses: the fifth create succeeds, and the sixth, on the database
  the fifth left, is refused.
\<close>

theorem create_up_to_five_witness:
  "User_findByPk example_db_four 1 = Some (example_user 1) \<and>
   wf_db example_db_four \<and>
   length (addresses_of_user example_db_four 1) = 4 \<and>
   fst (createShippingAddress example_create_body 50 example_db_four) =
     respond 201
       (AddressData ''Shipping address created successfully''
          (Some (\<lparr>addr_id = 5, usuario_id = 1, direccion = js ''Calle Mar 9'',
                   ciudad = js ''Lima'', estado_provincia = js ''Lima'',
                   codigo_postal = js ''15001-0042'', pais = js ''Peru'', is_default = False,
                   created_at = 50, updated_at = 50\<rparr>,
                 Some (minimal_user (example_user 1))))) \<and>
   length (addresses_of_user
             (snd (createShippingAddress example_create_body 50 example_db_four)) 1) = 5 \<and>
   createShippingAddress example_create_body 60
       (snd (createShippingAddress example_create_body 50 example_db_four)) =
     (respond 400 (Error ''Maximum number of addresses reached (5)''),
      snd (createShippingAddress example_create_body 50 example_db_four))"
proof -
  define row where "row =
    \<lparr>addr_id = next_addr_id example_db_four, usuario_id = 1,
     direccion = trim (js '' Calle Mar 9 ''), ciudad = trim (js ''Lima''),
     estado_provincia = trim (js ''Lima ''), codigo_postal = trim (js '' 15001-0042''),
     pais = trim (js ''Peru''), is_default = False, created_at = 50, updated_at = 50\<rparr>"
  define d5 where "d5 =
    example_db_four\<lparr>ShippingAddresses := ShippingAddresses example_db_four @ [row],
                     next_addr_id := next_addr_id example_db_four + 1\<rparr>"
  have u: "User_findByPk example_db_four 1 = Some (example_user 1)"
    by (simp add: User_findByPk_def example_db_four_def example_user_def)
  have u5: "User_findByPk d5 1 = Some (example_user 1)"
    by (simp add: User_findByPk_def d5_def example_db_four_def example_user_def)
  have n: "(1::int) \<noteq> 0" by simp
  have ne: "js '' Calle Mar 9 '' \<noteq> []" "js ''Lima'' \<noteq> []" "js ''Lima '' \<noteq> []"
    "js '' 15001-0042'' \<noteq> []" "js ''Peru'' \<noteq> []"
    by (simp_all add: js_def)
  have c4: "length (addresses_of_user example_db_four 1) = 4"
    by (simp add: addresses_of_user_def example_db_four_def example_address_def)
  have r: "row = \<lparr>addr_id = 5, usuario_id = 1, direccion = js ''Calle Mar 9'',
                   ciudad = js ''Lima'', estado_provincia = js ''Lima'',
                   codigo_postal = js ''15001-0042'', pais = js ''Peru'', is_default = False,
                   created_at = 50, updated_at = 50\<rparr>"
    by (simp add: row_def example_db_four_def js_def trim_def is_ws_def)
  have first: "fst (createShippingAddress example_create_body 50 example_db_four) =
        respond 201 (AddressData ''Shipping address created successfully''
                       (Some (row, Some (minimal_user (example_user 1))))) \<and>
      snd (createShippingAddress example_create_body 50 example_db_four) = d5 \<and>
      length (addresses_of_user d5 1) = 5"
    using create_up_to_five [OF u n ne example_postal_ok example_create_body_def row_def d5_def]
      wf_example_db_four
    by (simp add: c4)
  then have c5: "\<not> length (addresses_of_user d5 1) \<le> 4" by simp
  have second: "createShippingAddress example_create_body 60 d5 =
      (respond 400 (Error ''Maximum number of addresses reached (5)''), d5)"
    using create_up_to_five [OF u5 n ne example_postal_ok example_create_body_def refl refl,
        of 60]
    by (simp add: c5)
  show ?thesis using u c4 first second wf_example_db_four by (simp add: r)
qed

subsection \<open>Partial update\<close>

lemma trim_if_truthy_Inr:
  "trim_if_truthy x = Inr r \<Longrightarrow>
     applicable x \<and> (case r of None \<Rightarrow> old | Some t \<Rightarrow> t) = expected_value x old"
  by (cases x) (auto simp: trim_if_truthy_def applicable_def expected_value_def split: if_splits)

lemma trim_if_truthy_applicable:
  "applicable x \<Longrightarrow> \<exists>r. trim_if_truthy x = Inr r"
  by (cases x) (auto simp: trim_if_truthy_def applicable_def)

lemma prepare_updates_Inr:
  assumes "prepare_updates b now = Inr u"
  shows "apply_updates u a =
           a\<lparr>direccion := expected_value (body_direccion b) (direccion a),
             ciudad := expected_value (body_ciudad b) (ciudad a),
             estado_provincia := expected_value (body_estado_provincia b) (estado_provincia a),
             codigo_postal := expected_value (body_codigo_postal b) (codigo_postal a),
             pais := expected_value (body_pais b) (pais a),
             updated_at := now\<rparr>"
proof -
  from assms obtain dir ciu est cp pa where
    t: "trim_if_truthy (body_direccion b) = Inr dir" "trim_if_truthy (body_ciudad b) = Inr ciu"
       "trim_if_truthy (body_estado_provincia b) = Inr est"
       "trim_if_truthy (body_codigo_postal b) = Inr cp" "trim_if_truthy (body_pais b) = Inr pa"
    and u: "u = \<lparr>set_direccion = dir, set_ciudad = ciu, set_estado_provincia = est,
                 set_codigo_postal = cp, set_pais = pa, set_updated_at = now\<rparr>"
    by (auto simp: prepare_updates_def split: sum.splits)
  show ?thesis
    using t [THEN trim_if_truthy_Inr]
    by (simp add: u apply_updates_def)
qed

lemma prepare_updates_applicable:
  assumes "applicable (body_direccion b)" "applicable (body_ciudad b)"
    "applicable (body_estado_provincia b)" "applicable (body_codigo_postal b)"
    "applicable (body_pais b)"
  shows "\<exists>u. prepare_updates b now = Inr u"
  using assms [THEN trim_if_truthy_applicable]
  by (auto simp: prepare_updates_def)

lemma update_one_row:
  assumes "distinct (map key rows)" and "find (\<lambda>x. key x = k) rows = Some a"
    and "key (f a) = k"
  shows "map (\<lambda>x. if key x = k then f x else x) rows =
           map (\<lambda>x. if key x = k then f a else x) rows \<and>
         find (\<lambda>x. key x = k) (map (\<lambda>x. if key x = k then f x else x) rows) = Some (f a)"
proof -
  have single: "filter (\<lambda>x. key x = k) rows = [a]"
    using assms(1,2) by (rule find_filter_singleton)
  have a: "x = a" if "x \<in> set rows" "key x = k" for x
  proof -
    from that have "x \<in> set (filter (\<lambda>x. key x = k) rows)" by simp
    then show ?thesis by (simp add: single)
  qed
  have m: "map (\<lambda>x. if key x = k then f x else x) rows =
           map (\<lambda>x. if key x = k then f a else x) rows"
    by (rule map_cong) (auto dest: a)
  have "a \<in> set rows \<and> key a = k" using assms(2) by (rule find_Some_mem)
  then have "find (\<lambda>x. key x = k) (map (\<lambda>x. if key x = k then f a else x) rows) = Some (f a)"
    using assms(3) by (induction rows) auto
  then show ?thesis unfolding m by simp
qed

lemma update_result:
  assumes req: "ShippingAddress_findByPk_required d k = Some a"
    and auth: "usuario_id a = caller \<or> isAdmin"
    and ok: "status (fst (updateShippingAddress (Some k) b caller isAdmin now d)) = 200"
  shows "\<exists>u. prepare_updates b now = Inr u \<and>
           updateShippingAddress (Some k) b caller isAdmin now d =
             (respond 200 (AddressData ''Shipping address updated successfully''
                (ShippingAddress_findByPk_include
                   (ShippingAddress_update d (apply_updates u) (\<lambda>x. addr_id x = addr_id a))
                   (addr_id a))),
              ShippingAddress_update d (apply_updates u) (\<lambda>x. addr_id x = addr_id a))"
  using req auth ok
  by (auto simp: updateShippingAddress_def respond_def Let_def split: sum.splits if_splits)

lemma update_success:
  assumes wf: "wf_db d"
    and found: "ShippingAddress_findByPk d k = Some a"
    and auth: "usuario_id a = caller \<or> isAdmin"
    and ok: "status (fst (updateShippingAddress (Some k) b caller isAdmin now d)) = 200"
    and a': "a' = a\<lparr>direccion := expected_value (body_direccion b) (direccion a),
                    ciudad := expected_value (body_ciudad b) (ciudad a),
                    estado_provincia :=
                      expected_value (body_estado_provincia b) (estado_provincia a),
                    codigo_postal := expected_value (body_codigo_postal b) (codigo_postal a),
                    pais := expected_value (body_pais b) (pais a),
                    updated_at := now\<rparr>"
  shows "snd (updateShippingAddress (Some k) b caller isAdmin now d) =
           d\<lparr>ShippingAddresses := map (\<lambda>x. if addr_id x = k then a' else x) (ShippingAddresses d)\<rparr> \<and>
         ShippingAddress_findByPk (snd (updateShippingAddress (Some k) b caller isAdmin now d)) k =
           Some a' \<and>
         fst (updateShippingAddress (Some k) b caller isAdmin now d) =
           respond 200 (AddressData ''Shipping address updated successfully''
             (Some (a', map_option minimal_user (User_findByPk d (usuario_id a))))) \<and>
         applicable (body_direccion b) \<and> applicable (body_ciudad b) \<and>
         applicable (body_estado_provincia b) \<and> applicable (body_codigo_postal b) \<and>
         applicable (body_pais b)"
proof -
  have req: "ShippingAddress_findByPk_required d k = Some a"
    using found by (simp add: findByPk_required_eq [OF wf])
  from update_result [OF req auth ok] obtain u where
    u: "prepare_updates b now = Inr u"
    and res: "updateShippingAddress (Some k) b caller isAdmin now d =
             (respond 200 (AddressData ''Shipping address updated successfully''
                (ShippingAddress_findByPk_include
                   (ShippingAddress_update d (apply_updates u) (\<lambda>x. addr_id x = addr_id a))
                   (addr_id a))),
              ShippingAddress_update d (apply_updates u) (\<lambda>x. addr_id x = addr_id a))"
    by blast
  have ka: "addr_id a = k"
    using found unfolding ShippingAddress_findByPk_def by (auto dest: find_Some_mem)
  have ap: "apply_updates u a = a'"
    by (simp add: prepare_updates_Inr [OF u] a')
  have dist: "distinct (map addr_id (ShippingAddresses d))"
    using wf by (simp add: wf_db_def)
  have fnd: "find (\<lambda>x. addr_id x = k) (ShippingAddresses d) = Some a"
    using found by (simp add: ShippingAddress_findByPk_def)
  have "addr_id (apply_updates u a) = k"
    by (simp add: ap a' ka)
  from update_one_row [where key = addr_id and f = "apply_updates u", OF dist fnd this]
  have rows: "map (\<lambda>x. if addr_id x = k then apply_updates u x else x) (ShippingAddresses d) =
                map (\<lambda>x. if addr_id x = k then a' else x) (ShippingAddresses d)"
    and re: "find (\<lambda>x. addr_id x = k)
               (map (\<lambda>x. if addr_id x = k then apply_updates u x else x) (ShippingAddresses d)) =
             Some a'"
    by (simp_all add: ap)
  have d': "ShippingAddress_update d (apply_updates u) (\<lambda>x. addr_id x = k) =
              d\<lparr>ShippingAddresses := map (\<lambda>x. if addr_id x = k then a' else x) (ShippingAddresses d)\<rparr>"
    by (simp add: ShippingAddress_update_def rows)
  have byPk: "ShippingAddress_findByPk
                (d\<lparr>ShippingAddresses := map (\<lambda>x. if addr_id x = k then a' else x) (ShippingAddresses d)\<rparr>) k =
              Some a'"
    using re by (simp add: ShippingAddress_findByPk_def rows)
  have incl: "ShippingAddress_findByPk_include
                (d\<lparr>ShippingAddresses := map (\<lambda>x. if addr_id x = k then a' else x) (ShippingAddresses d)\<rparr>) k =
              Some (a', map_option minimal_user (User_findByPk d (usuario_id a)))"
    using byPk by (simp add: ShippingAddress_findByPk_include_def User_findByPk_def a')
  have app: "applicable (body_direccion b) \<and> applicable (body_ciudad b) \<and>
         applicable (body_estado_provincia b) \<and> applicable (body_codigo_postal b) \<and>
         applicable (body_pais b)"
    using u by (auto simp: prepare_updates_def split: sum.splits dest: trim_if_truthy_Inr)
  show ?thesis
    using app by (simp add: res d' ka byPk incl)
qed


lemma update_failure:
  "status (fst (updateShippingAddress p b caller isAdmin now d)) \<noteq> 200 \<Longrightarrow>
     snd (updateShippingAddress p b caller isAdmin now d) = d"
  by (auto simp: updateShippingAddress_def respond_def Let_def
      split: option.splits sum.splits if_splits)

lemma update_200_postal:
  assumes "ShippingAddress_findByPk_required d k = Some a"
    and "usuario_id a = caller \<or> isAdmin"
    and "status (fst (updateShippingAddress (Some k) b caller isAdmin now d)) = 200"
  shows "case body_codigo_postal b of
           JStr s \<Rightarrow> s = [] \<or> postalCodeRegex_test (trim s)
         | _ \<Rightarrow> True"
  using assms
  by (cases "body_codigo_postal b")
     (auto simp: updateShippingAddress_def respond_def Let_def split: sum.splits if_splits)

lemma update_status_200:
  assumes req: "ShippingAddress_findByPk_required d k = Some a"
    and auth: "usuario_id a = caller \<or> isAdmin"
    and app: "applicable (body_direccion b)" "applicable (body_ciudad b)"
      "applicable (body_estado_provincia b)" "applicable (body_codigo_postal b)"
      "applicable (body_pais b)"
    and postal: "\<And>s. body_codigo_postal b = JStr s \<Longrightarrow> s \<noteq> [] \<Longrightarrow> postalCodeRegex_test (trim s)"
  shows "status (fst (updateShippingAddress (Some k) b caller isAdmin now d)) = 200"
proof -
  obtain u where u: "prepare_updates b now = Inr u"
    using prepare_updates_applicable [OF app] by blast
  have check: "(if truthy (body_codigo_postal b)
                then map_sum id postalCodeRegex_test (trim_val (body_codigo_postal b))
                else Inr True) = Inr True"
    using app(4) postal by (cases "body_codigo_postal b") (auto simp: applicable_def)
  show ?thesis
    using req auth by (auto simp: updateShippingAddress_def check u respond_def Let_def)
qed

lemma update_succeeds_iff:
  assumes wf: "wf_db d"
    and found: "ShippingAddress_findByPk d k = Some a"
    and auth: "usuario_id a = caller \<or> isAdmin"
  shows "status (fst (updateShippingAddress (Some k) b caller isAdmin now d)) = 200 \<longleftrightarrow>
           well_formed_update b"
proof
  have req: "ShippingAddress_findByPk_required d k = Some a"
    using found by (simp add: findByPk_required_eq [OF wf])
  {
    assume ok: "status (fst (updateShippingAddress (Some k) b caller isAdmin now d)) = 200"
    from update_success [OF wf found auth ok refl] update_200_postal [OF req auth ok]
    show "well_formed_update b" by (simp add: well_formed_update_def)
  }
  {
    assume w: "well_formed_update b"
    then have postal: "postalCodeRegex_test (trim s)"
      if "body_codigo_postal b = JStr s" "s \<noteq> []" for s
      using that by (simp add: well_formed_update_def)
    from w show "status (fst (updateShippingAddress (Some k) b caller isAdmin now d)) = 200"
      by (intro update_status_200 [OF req auth] postal) (simp_all add: well_formed_update_def)
  }
qed

text \<open>
  C6 (as amended): take an authorized update of an existing address \<open>a\<close>.  It succeeds
  (status 200) exactly when the body is well formed: every field a string or a falsy
  value, and the postal code, when a non-empty string, matching the pattern.  On
  success the row with the key of \<open>a\<close> is \<open>a\<close> with each text column set to the
  trimmed request field where that field is a non-empty string and kept where it is
  absent or the empty string, and with \<open>updated_at\<close> set to the clock value; key,
  owner, default flag and creation time are those of \<open>a\<close>, every other row and the
  users are as before, and the response carries the row as re-read.  In particular a
  request without a postal code keeps the postal code.  When the update does not
  succeed, nothing changes.
\<close>

theorem update_changes_supplied_fields_only:
  assumes "wf_db d"
    and "ShippingAddress_findByPk d k = Some a"
    and "usuario_id a = caller \<or> isAdmin"
    and "a' = a\<lparr>direccion := expected_value (body_direccion b) (direccion a),
                   ciudad := expected_value (body_ciudad b) (ciudad a),
                   estado_provincia :=
                     expected_value (body_estado_provincia b) (estado_provincia a),
                   codigo_postal := expected_value (body_codigo_postal b) (codigo_postal a),
                   pais := expected_value (body_pais b) (pais a),
                   updated_at := now\<rparr>"
  shows "(status (fst (updateShippingAddress (Some k) b caller isAdmin now d)) = 200 \<longleftrightarrow>
            well_formed_update b) \<and>
         (if status (fst (updateShippingAddress (Some k) b caller isAdmin now d)) = 200
          then snd (updateShippingAddress (Some k) b caller isAdmin now d) =
                 d\<lparr>ShippingAddresses :=
                     map (\<lambda>x. if addr_id x = k then a' else x) (ShippingAddresses d)\<rparr> \<and>
               ShippingAddress_findByPk
                   (snd (updateShippingAddress (Some k) b caller isAdmin now d)) k = Some a' \<and>
               fst (updateShippingAddress (Some k) b caller isAdmin now d) =
                 respond 200 (AddressData ''Shipping address updated successfully''
                   (Some (a', map_option minimal_user (User_findByPk d (usuario_id a))))) \<and>
               applicable (body_direccion b) \<and> applicable (body_ciudad b) \<and>
               applicable (body_estado_provincia b) \<and> applicable (body_codigo_postal b) \<and>
               applicable (body_pais b)
          else snd (updateShippingAddress (Some k) b caller isAdmin now d) = d)"
proof (rule conjI)
  show "status (fst (updateShippingAddress (Some k) b caller isAdmin now d)) = 200 \<longleftrightarrow>
          well_formed_update b"
    using assms(1-3) by (rule update_succeeds_iff)
next
  show "if status (fst (updateShippingAddress (Some k) b caller isAdmin now d)) = 200
        then snd (updateShippingAddress (Some k) b caller isAdmin now d) =
               d\<lparr>ShippingAddresses :=
                   map (\<lambda>x. if addr_id x = k then a' else x) (ShippingAddresses d)\<rparr> \<and>
             ShippingAddress_findByPk
                 (snd (updateShippingAddress (Some k) b caller isAdmin now d)) k = Some a' \<and>
             fst (updateShippingAddress (Some k) b caller isAdmin now d) =
               respond 200 (AddressData ''Shipping address updated successfully''
                 (Some (a', map_option minimal_user (User_findByPk d (usuario_id a))))) \<and>
             applicable (body_direccion b) \<and> applicable (body_ciudad b) \<and>
             applicable (body_estado_provincia b) \<and> applicable (body_codigo_postal b) \<and>
             applicable (body_pais b)
        else snd (updateShippingAddress (Some k) b caller isAdmin now d) = d"
  proof (cases "status (fst (updateShippingAddress (Some k) b caller isAdmin now d)) = 200")
    case True
    show ?thesis
      by (subst if_P [OF True]) (rule update_success [OF assms(1-3) True assms(4)])
  next
    case False
    show ?thesis
      by (subst if_not_P [OF False]) (rule update_failure [OF False])
  qed
qed

lemma js_eq_Nil: "js s = [] \<longleftrightarrow> s = []"
  by (simp add: js_def)

lemma example_found_1:
  "ShippingAddress_findByPk example_db 1 = Some (example_address 1 1 True 10)"
  by (simp add: ShippingAddress_findByPk_def example_defs)

lemma example_required_1:
  "ShippingAddress_findByPk_required example_db 1 = Some (example_address 1 1 True 10)"
  by (simp add: findByPk_required_eq [OF wf_example_db] example_found_1)

lemma update_postal_rejected:
  assumes req: "ShippingAddress_findByPk_required d k = Some a"
    and auth: "usuario_id a = caller \<or> isAdmin"
    and cp: "body_codigo_postal b = JStr cp" "cp \<noteq> []" "\<not> postalCodeRegex_test (trim cp)"
  shows "updateShippingAddress (Some k) b caller isAdmin now d =
           (respond 400 (Error ''Invalid postal code format''), d)"
  using req auth cp by (auto simp: updateShippingAddress_def)

text \<open>
  User 1 updates the street of their address 1: the body is well formed, the street is
  stored trimmed, the postal code and the other columns stay, the timestamp moves from
  10 to 99.
\<close>

theorem update_witness:
  "wf_db example_db \<and>
   ShippingAddress_findByPk example_db 1 = Some (example_address 1 1 True 10) \<and>
   well_formed_update example_fields \<and>
   status (fst (updateShippingAddress (Some 1) example_fields 1 False 99 example_db)) = 200 \<and>
   ShippingAddress_findByPk
       (snd (updateShippingAddress (Some 1) example_fields 1 False 99 example_db)) 1 =
     Some ((example_address 1 1 True 10)\<lparr>direccion := js ''Jr. Luna 45'', updated_at := 99\<rparr>)"
proof -
  have auth: "usuario_id (example_address 1 1 True 10) = 1 \<or> False"
    by (simp add: example_address_def)
  have w: "well_formed_update example_fields"
    by (simp add: well_formed_update_def example_fields_def applicable_def)
  note t = update_changes_supplied_fields_only [OF wf_example_db example_found_1 auth refl,
      where b = example_fields and now = 99]
  have ok: "status (fst (updateShippingAddress (Some 1) example_fields 1 False 99 example_db)) = 200"
    using t [THEN conjunct1] w by (simp only:)
  have tr: "trim (js ''  Jr. Luna 45 '') = js ''Jr. Luna 45''"
    by (simp add: js_def trim_def is_ws_def)
  note t2 = t [THEN conjunct2, unfolded if_P [OF ok]]
  have e: "(example_address 1 1 True 10)
             \<lparr>direccion := expected_value (body_direccion example_fields)
                             (direccion (example_address 1 1 True 10)),
              ciudad := expected_value (body_ciudad example_fields)
                          (ciudad (example_address 1 1 True 10)),
              estado_provincia := expected_value (body_estado_provincia example_fields)
                                    (estado_provincia (example_address 1 1 True 10)),
              codigo_postal := expected_value (body_codigo_postal example_fields)
                                 (codigo_postal (example_address 1 1 True 10)),
              pais := expected_value (body_pais example_fields)
                        (pais (example_address 1 1 True 10)),
              updated_at := 99\<rparr> =
           (example_address 1 1 True 10)\<lparr>direccion := js ''Jr. Luna 45'', updated_at := 99\<rparr>"
    by (simp add: example_fields_def expected_value_def tr example_address_def js_eq_Nil)
  have "ShippingAddress_findByPk
       (snd (updateShippingAddress (Some 1) example_fields 1 False 99 example_db)) 1 =
     Some ((example_address 1 1 True 10)\<lparr>direccion := js ''Jr. Luna 45'', updated_at := 99\<rparr>)"
    using t2 [THEN conjunct2, THEN conjunct1] by (simp only: e)
  then show ?thesis
    using wf_example_db example_found_1 ok w by simp
qed

text \<open>
  The claim for every supplied field fails on the empty string: user 1 sends the empty
  string as street and a city.  The update is answered 200, the city is stored
  trimmed, and the street is not the trimmed request value (the empty string) but the
  old street.
\<close>

theorem update_empty_street_counterexample:
  "body_direccion example_fields_empty_street = JStr [] \<and>
   status (fst (updateShippingAddress (Some 1) example_fields_empty_street 1 False 99
                  example_db)) = 200 \<and>
   map_option direccion (ShippingAddress_findByPk
       (snd (updateShippingAddress (Some 1) example_fields_empty_street 1 False 99 example_db))
       1) = Some (js ''Av. Sol 123'') \<and>
   map_option ciudad (ShippingAddress_findByPk
       (snd (updateShippingAddress (Some 1) example_fields_empty_street 1 False 99 example_db))
       1) = Some (js ''Puno'') \<and>
   js ''Av. Sol 123'' \<noteq> trim []"
proof -
  have auth: "usuario_id (example_address 1 1 True 10) = 1 \<or> False"
    by (simp add: example_address_def)
  have w: "well_formed_update example_fields_empty_street"
    by (simp add: well_formed_update_def example_fields_empty_street_def applicable_def)
  have ok: "status (fst (updateShippingAddress (Some 1) example_fields_empty_street 1 False 99
                  example_db)) = 200"
    using update_succeeds_iff [OF wf_example_db example_found_1 auth] w by (simp only:)
  have tr: "trim (js '' Puno '') = js ''Puno''"
    by (simp add: js_def trim_def is_ws_def)
  note t = update_success [OF wf_example_db example_found_1 auth ok refl,
      THEN conjunct2, THEN conjunct1]
  have d: "map_option direccion (ShippingAddress_findByPk
       (snd (updateShippingAddress (Some 1) example_fields_empty_street 1 False 99 example_db))
       1) = Some (js ''Av. Sol 123'')"
    unfolding t by (simp add: example_fields_empty_street_def expected_value_def
        example_address_def)
  have c: "map_option ciudad (ShippingAddress_findByPk
       (snd (updateShippingAddress (Some 1) example_fields_empty_street 1 False 99 example_db))
       1) = Some (js ''Puno'')"
    unfolding t by (simp add: example_fields_empty_street_def expected_value_def
        example_address_def tr js_eq_Nil)
  have b: "body_direccion example_fields_empty_street = JStr []"
    by (simp add: example_fields_empty_street_def)
  have n: "js ''Av. Sol 123'' \<noteq> trim []"
    by (simp add: trim_def js_def)
  show ?thesis by (intro conjI b ok d c n)
qed

subsection \<open>Postal code validation\<close>

lemma postal_examples:
  "postalCodeRegex_test (trim (js ''12345''))"
  "postalCodeRegex_test (trim (js ''12345-6789''))"
  "\<not> postalCodeRegex_test (trim (js ''1234''))"
  "\<not> postalCodeRegex_test (trim (js ''abcde''))"
  "\<not> postalCodeRegex_test (trim (js ''12345-67''))"
  by (simp_all add: js_def trim_def is_ws_def postalCodeRegex_test_def is_digit_def)

lemma trim_Nil: "trim [] = []"
  by (simp add: trim_def)

lemma postal_not_empty: "postalCodeRegex_test (trim cp) \<Longrightarrow> cp \<noteq> []"
  by (auto simp: trim_Nil postalCodeRegex_test_def)

lemma create_postal:
  assumes user: "User_findByPk d uid = Some u"
    and uid: "uid \<noteq> 0"
    and few: "length (addresses_of_user d uid) < 5"
    and nonempty: "dir \<noteq> []" "ciu \<noteq> []" "est \<noteq> []" "pa \<noteq> []"
    and b: "b = \<lparr>body_direccion = JStr dir, body_ciudad = JStr ciu,
                 body_estado_provincia = JStr est, body_codigo_postal = JStr cp,
                 body_pais = JStr pa, body_usuario_id = Some uid\<rparr>"
  shows "if postalCodeRegex_test (trim cp)
         then status (fst (createShippingAddress b now d)) = 201 \<and>
              map codigo_postal (ShippingAddresses (snd (createShippingAddress b now d))) =
                map codigo_postal (ShippingAddresses d) @ [trim cp]
         else status (fst (createShippingAddress b now d)) = 400 \<and>
              snd (createShippingAddress b now d) = d \<and>
              (cp \<noteq> [] \<longrightarrow> fst (createShippingAddress b now d) =
                 respond 400 (Error ''Invalid postal code format''))"
proof (cases "postalCodeRegex_test (trim cp)")
  case True
  then have "cp \<noteq> []" by (rule postal_not_empty)
  then show ?thesis
    using True user uid few nonempty
    by (simp add: b createShippingAddress_def id_truthy_def count_addresses_of_user
        trimmed_fields_def ShippingAddress_create_def Let_def respond_def)
next
  case False
  then show ?thesis
    using user uid few nonempty
    by (simp add: b createShippingAddress_def id_truthy_def count_addresses_of_user respond_def)
qed

lemma update_postal:
  assumes wf: "wf_db d"
    and found: "ShippingAddress_findByPk d k = Some a"
    and auth: "usuario_id a = caller \<or> isAdmin"
    and cp: "body_codigo_postal b = JStr cp"
    and app: "applicable (body_direccion b)" "applicable (body_ciudad b)"
      "applicable (body_estado_provincia b)" "applicable (body_pais b)"
  shows "if cp = []
         then status (fst (updateShippingAddress (Some k) b caller isAdmin now d)) = 200 \<and>
              map_option codigo_postal (ShippingAddress_findByPk
                  (snd (updateShippingAddress (Some k) b caller isAdmin now d)) k) =
                Some (codigo_postal a)
         else if postalCodeRegex_test (trim cp)
         then status (fst (updateShippingAddress (Some k) b caller isAdmin now d)) = 200 \<and>
              map_option codigo_postal (ShippingAddress_findByPk
                  (snd (updateShippingAddress (Some k) b caller isAdmin now d)) k) =
                Some (trim cp)
         else updateShippingAddress (Some k) b caller isAdmin now d =
                (respond 400 (Error ''Invalid postal code format''), d)"
proof (cases "cp \<noteq> [] \<and> \<not> postalCodeRegex_test (trim cp)")
  case True
  have req: "ShippingAddress_findByPk_required d k = Some a"
    using found by (simp add: findByPk_required_eq [OF wf])
  from True show ?thesis
    using update_postal_rejected [OF req auth cp] by simp
next
  case False
  have req: "ShippingAddress_findByPk_required d k = Some a"
    using found by (simp add: findByPk_required_eq [OF wf])
  have appcp: "applicable (body_codigo_postal b)"
    by (simp add: cp applicable_def)
  have ok: "status (fst (updateShippingAddress (Some k) b caller isAdmin now d)) = 200"
    using req auth app(1-3) appcp app(4)
    by (rule update_status_200) (use False cp in auto)
  have "map_option codigo_postal (ShippingAddress_findByPk
            (snd (updateShippingAddress (Some k) b caller isAdmin now d)) k) =
          Some (expected_value (body_codigo_postal b) (codigo_postal a))"
    using update_success [OF wf found auth ok refl, THEN conjunct2, THEN conjunct1] by simp
  then show ?thesis
    using False ok by (auto simp: cp expected_value_def)
qed

text \<open>
  C7 (as amended): \<open>12345\<close> and \<open>12345-6789\<close> match the pattern; \<open>1234\<close>, \<open>abcde\<close> and
  \<open>12345-67\<close> do not.  A create request that passes the other checks is answered 201,
  with the trimmed postal code stored, exactly when the trimmed postal code matches, and
  400 without any insert otherwise (for a non-empty postal code with the error
  \<open>Invalid postal code format\<close>).  An authorized update with a non-empty postal code
  string is answered 200, with the trimmed postal code stored, exactly when the trimmed
  postal code matches, and 400 with that error and no change otherwise.  An update
  whose postal code is the empty string is not validated: it is answered 200 and the
  stored postal code stays.
\<close>

theorem postal_code_validation:
  "postalCodeRegex_test (trim (js ''12345'')) \<and>
   postalCodeRegex_test (trim (js ''12345-6789'')) \<and>
   \<not> postalCodeRegex_test (trim (js ''1234'')) \<and>
   \<not> postalCodeRegex_test (trim (js ''abcde'')) \<and>
   \<not> postalCodeRegex_test (trim (js ''12345-67'')) \<and>
   (User_findByPk d uid = Some u \<and> uid \<noteq> 0 \<and> length (addresses_of_user d uid) < 5 \<and>
    dir \<noteq> [] \<and> ciu \<noteq> [] \<and> est \<noteq> [] \<and> pa \<noteq> [] \<and>
    cb = \<lparr>body_direccion = JStr dir, body_ciudad = JStr ciu, body_estado_provincia = JStr est,
          body_codigo_postal = JStr cp, body_pais = JStr pa, body_usuario_id = Some uid\<rparr> \<longrightarrow>
      (if postalCodeRegex_test (trim cp)
       then status (fst (createShippingAddress cb now d)) = 201 \<and>
            map codigo_postal (ShippingAddresses (snd (createShippingAddress cb now d))) =
              map codigo_postal (ShippingAddresses d) @ [trim cp]
       else status (fst (createShippingAddress cb now d)) = 400 \<and>
            snd (createShippingAddress cb now d) = d \<and>
            (cp \<noteq> [] \<longrightarrow> fst (createShippingAddress cb now d) =
               respond 400 (Error ''Invalid postal code format'')))) \<and>
   (wf_db d \<and> ShippingAddress_findByPk d k = Some a \<and> (usuario_id a = caller \<or> isAdmin) \<and>
    body_codigo_postal ub = JStr up \<and> applicable (body_direccion ub) \<and>
    applicable (body_ciudad ub) \<and> applicable (body_estado_provincia ub) \<and>
    applicable (body_pais ub) \<longrightarrow>
      (if up = []
       then status (fst (updateShippingAddress (Some k) ub caller isAdmin now d)) = 200 \<and>
            map_option codigo_postal (ShippingAddress_findByPk
                (snd (updateShippingAddress (Some k) ub caller isAdmin now d)) k) =
              Some (codigo_postal a)
       else if postalCodeRegex_test (trim up)
       then status (fst (updateShippingAddress (Some k) ub caller isAdmin now d)) = 200 \<and>
            map_option codigo_postal (ShippingAddress_findByPk
                (snd (updateShippingAddress (Some k) ub caller isAdmin now d)) k) =
              Some (trim up)
       else updateShippingAddress (Some k) ub caller isAdmin now d =
              (respond 400 (Error ''Invalid postal code format''), d)))"
proof (intro conjI impI)
  assume "User_findByPk d uid = Some u \<and> uid \<noteq> 0 \<and> length (addresses_of_user d uid) < 5 \<and>
    dir \<noteq> [] \<and> ciu \<noteq> [] \<and> est \<noteq> [] \<and> pa \<noteq> [] \<and>
    cb = \<lparr>body_direccion = JStr dir, body_ciudad = JStr ciu, body_estado_provincia = JStr est,
          body_codigo_postal = JStr cp, body_pais = JStr pa, body_usuario_id = Some uid\<rparr>"
  then show "if postalCodeRegex_test (trim cp)
       then status (fst (createShippingAddress cb now d)) = 201 \<and>
            map codigo_postal (ShippingAddresses (snd (createShippingAddress cb now d))) =
              map codigo_postal (ShippingAddresses d) @ [trim cp]
       else status (fst (createShippingAddress cb now d)) = 400 \<and>
            snd (createShippingAddress cb now d) = d \<and>
            (cp \<noteq> [] \<longrightarrow> fst (createShippingAddress cb now d) =
               respond 400 (Error ''Invalid postal code format''))"
    by (intro create_postal) simp_all
next
  assume "wf_db d \<and> ShippingAddress_findByPk d k = Some a \<and> (usuario_id a = caller \<or> isAdmin) \<and>
    body_codigo_postal ub = JStr up \<and> applicable (body_direccion ub) \<and>
    applicable (body_ciudad ub) \<and> applicable (body_estado_provincia ub) \<and>
    applicable (body_pais ub)"
  then show "if up = []
       then status (fst (updateShippingAddress (Some k) ub caller isAdmin now d)) = 200 \<and>
            map_option codigo_postal (ShippingAddress_findByPk
                (snd (updateShippingAddress (Some k) ub caller isAdmin now d)) k) =
              Some (codigo_postal a)
       else if postalCodeRegex_test (trim up)
       then status (fst (updateShippingAddress (Some k) ub caller isAdmin now d)) = 200 \<and>
            map_option codigo_postal (ShippingAddress_findByPk
                (snd (updateShippingAddress (Some k) ub caller isAdmin now d)) k) =
              Some (trim up)
       else updateShippingAddress (Some k) ub caller isAdmin now d =
              (respond 400 (Error ''Invalid postal code format''), d)"
    by (intro update_postal) simp_all
qed (rule postal_examples)+


text \<open>
  User 3 asks to create an address with the postal code \<open>12345-67\<close>; user 1 updates
  the postal code of address 1 to \<open>12345\<close> written with surrounding blanks.
\<close>

theorem postal_code_validation_witness:
  "fst (createShippingAddress example_create_bad_postal 99 example_db) =
     respond 400 (Error ''Invalid postal code format'') \<and>
   snd (createShippingAddress example_create_bad_postal 99 example_db) = example_db \<and>
   status (fst (updateShippingAddress (Some 1) example_fields_postal 1 False 99 example_db)) = 200 \<and>
   map_option codigo_postal (ShippingAddress_findByPk
       (snd (updateShippingAddress (Some 1) example_fields_postal 1 False 99 example_db)) 1) =
     Some (js ''12345'')"
proof -
  note t = postal_code_validation [where d = example_db and now = 99
      and uid = 3 and u = "example_user 3" and cb = example_create_bad_postal
      and dir = "js ''Calle Mar 9''" and ciu = "js ''Lima''" and est = "js ''Lima''"
      and pa = "js ''Peru''" and cp = "js ''12345-67''"
      and k = 1 and a = "example_address 1 1 True 10" and caller = 1 and isAdmin = False
      and ub = example_fields_postal and up = "js '' 12345 ''"]
  have c: "User_findByPk example_db 3 = Some (example_user 3) \<and> (3::int) \<noteq> 0 \<and>
      length (addresses_of_user example_db 3) < 5 \<and>
      js ''Calle Mar 9'' \<noteq> [] \<and> js ''Lima'' \<noteq> [] \<and> js ''Lima'' \<noteq> [] \<and> js ''Peru'' \<noteq> [] \<and>
      example_create_bad_postal =
        \<lparr>body_direccion = JStr (js ''Calle Mar 9''), body_ciudad = JStr (js ''Lima''),
         body_estado_provincia = JStr (js ''Lima''), body_codigo_postal = JStr (js ''12345-67''),
         body_pais = JStr (js ''Peru''), body_usuario_id = Some 3\<rparr>"
    by (simp add: example_create_bad_postal_def User_findByPk_def addresses_of_user_def
        example_db_def example_user_def example_address_def js_eq_Nil)
  have bad: "\<not> postalCodeRegex_test (trim (js ''12345-67''))" "js ''12345-67'' \<noteq> []"
    by (simp_all add: postal_examples js_eq_Nil)
  have create: "fst (createShippingAddress example_create_bad_postal 99 example_db) =
       respond 400 (Error ''Invalid postal code format'') \<and>
     snd (createShippingAddress example_create_bad_postal 99 example_db) = example_db"
    using t [THEN conjunct2, THEN conjunct2, THEN conjunct2, THEN conjunct2, THEN conjunct2,
        THEN conjunct1, THEN mp, OF c] bad
    by simp
  have h: "wf_db example_db \<and>
      ShippingAddress_findByPk example_db 1 = Some (example_address 1 1 True 10) \<and>
      (usuario_id (example_address 1 1 True 10) = 1 \<or> False) \<and>
      body_codigo_postal example_fields_postal = JStr (js '' 12345 '') \<and>
      applicable (body_direccion example_fields_postal) \<and>
      applicable (body_ciudad example_fields_postal) \<and>
      applicable (body_estado_provincia example_fields_postal) \<and>
      applicable (body_pais example_fields_postal)"
    by (simp add: wf_example_db example_found_1 example_fields_postal_def applicable_def
        example_address_def)
  have good: "postalCodeRegex_test (trim (js '' 12345 ''))" "js '' 12345 '' \<noteq> []"
    "trim (js '' 12345 '') = js ''12345''"
    by (simp_all add: js_def trim_def is_ws_def postalCodeRegex_test_def is_digit_def)
  have update: "status (fst (updateShippingAddress (Some 1) example_fields_postal 1 False 99 example_db)) = 200 \<and>
     map_option codigo_postal (ShippingAddress_findByPk
       (snd (updateShippingAddress (Some 1) example_fields_postal 1 False 99 example_db)) 1) =
     Some (js ''12345'')"
    using t [THEN conjunct2, THEN conjunct2, THEN conjunct2, THEN conjunct2, THEN conjunct2,
        THEN conjunct2, THEN mp, OF h] good
    by simp
  show ?thesis using create update by simp
qed

text \<open>
  The claim for every string fails on the empty one: it does not match the pattern, and
  the update that carries it is answered 200, the stored postal code unchanged.
\<close>

theorem update_empty_postal_counterexample:
  "\<not> postalCodeRegex_test (trim []) \<and>
   body_codigo_postal example_fields_empty_postal = JStr [] \<and>
   status (fst (updateShippingAddress (Some 1) example_fields_empty_postal 1 False 99 example_db)) =
     200 \<and>
   map_option codigo_postal (ShippingAddress_findByPk
       (snd (updateShippingAddress (Some 1) example_fields_empty_postal 1 False 99 example_db)) 1) =
     Some (js ''08000'')"
proof -
  have auth: "usuario_id (example_address 1 1 True 10) = 1 \<or> False"
    by (simp add: example_address_def)
  have cp: "body_codigo_postal example_fields_empty_postal = JStr []"
    by (simp add: example_fields_empty_postal_def)
  have app: "applicable (body_direccion example_fields_empty_postal)"
    "applicable (body_ciudad example_fields_empty_postal)"
    "applicable (body_estado_provincia example_fields_empty_postal)"
    "applicable (body_pais example_fields_empty_postal)"
    by (simp_all add: example_fields_empty_postal_def example_fields_def applicable_def)
  have "\<not> postalCodeRegex_test (trim [])"
    by (simp add: trim_Nil postalCodeRegex_test_def)
  moreover have "codigo_postal (example_address 1 1 True 10) = js ''08000''"
    by (simp add: example_address_def)
  ultimately show ?thesis
    using update_postal [OF wf_example_db example_found_1 auth cp app, of 99] cp by simp
qed

subsection \<open>Pagination\<close>

lemma page_of_spec:
  "page_of q =
     (case parseInt q of NaN \<Rightarrow> Num 1 | Num n \<Rightarrow> Num (max 1 n) | PosInfinity \<Rightarrow> PosInfinity
      | NegInfinity \<Rightarrow> Num 1)"
  by (cases "parseInt q") (auto simp: page_of_def or_default_def Math_max_def)

lemma limit_of_spec:
  "limit_of q =
     (case parseInt q of
        NaN \<Rightarrow> Num 10
      | Num n \<Rightarrow> if n = 0 then Num 10 else Num (min 50 (max 1 n))
      | PosInfinity \<Rightarrow> Num 50
      | NegInfinity \<Rightarrow> Num 1)"
  by (cases "parseInt q") (auto simp: limit_of_def or_default_def Math_max_def Math_min_def)

lemma limit_above_50: "parseInt q = Num n \<Longrightarrow> 50 < n \<Longrightarrow> limit_of q = Num 50"
  by (simp add: limit_of_spec)

lemma limit_in_range: "parseInt q = Num n \<Longrightarrow> 1 \<le> n \<Longrightarrow> n \<le> 50 \<Longrightarrow> limit_of q = Num n"
  by (simp add: limit_of_spec)

lemma page_below_1: "parseInt q = Num n \<Longrightarrow> n < 1 \<Longrightarrow> page_of q = Num 1"
  by (simp add: page_of_spec)

lemma page_from_1: "parseInt q = Num n \<Longrightarrow> 1 \<le> n \<Longrightarrow> page_of q = Num n"
  by (simp add: page_of_spec)

text \<open>\<open>Math.ceil(c / l)\<close> is the least number of pages of \<open>l\<close> items that hold \<open>c\<close> items.\<close>

lemma Math_ceil_div_least:
  assumes "0 < l" and "Math_ceil_div c (Num l) = Num t"
  shows "t \<le> n \<longleftrightarrow> c \<le> n * l"
proof -
  from assms have t: "t = \<lceil>real_of_int c / real_of_int l\<rceil>"
    by (simp add: Math_ceil_div_def)
  have "t \<le> n \<longleftrightarrow> real_of_int c / real_of_int l \<le> real_of_int n"
    by (simp add: t ceiling_le_iff)
  also have "\<dots> \<longleftrightarrow> real_of_int c \<le> real_of_int n * real_of_int l"
    using assms(1) by (simp add: pos_divide_le_eq)
  also have "\<dots> \<longleftrightarrow> real_of_int c \<le> real_of_int (n * l)" by simp
  also have "\<dots> \<longleftrightarrow> c \<le> n * l" by (simp only: of_int_le_iff)
  finally show ?thesis .
qed

text \<open>
  The pagination of the full controller: both list handlers answer 200 only with
  \<open>currentPage = max(1, page)\<close>, \<open>itemsPerPage\<close> in [1, 50] and
  \<open>totalPages = ceil(totalItems / itemsPerPage)\<close>.
\<close>

lemma getShippingAddressesByUserId_pagination:
  assumes "getShippingAddressesByUserId param qp ql d = respond 200 (PageData m usr rows p)"
  shows "currentPage p = page_of qp \<and> itemsPerPage p = limit_of ql \<and>
         (\<exists>l. itemsPerPage p = Num l \<and> 1 \<le> l \<and> l \<le> 50) \<and>
         totalPages p = Math_ceil_div (totalItems p) (itemsPerPage p)"
  using assms limit_of_Num [of ql]
  by (auto simp: getShippingAddressesByUserId_def respond_def Let_def
      split: option.splits sum.splits if_splits)

lemma getAllShippingAddresses_pagination:
  assumes "getAllShippingAddresses qp ql qc qe qpa d = respond 200 (PageData m usr rows p)"
  shows "currentPage p = page_of qp \<and> itemsPerPage p = limit_of ql \<and>
         (\<exists>l. itemsPerPage p = Num l \<and> 1 \<le> l \<and> l \<le> 50) \<and>
         totalPages p = Math_ceil_div (totalItems p) (itemsPerPage p)"
  using assms limit_of_Num [of ql]
  by (auto simp: getAllShippingAddresses_def respond_def Let_def
      split: option.splits sum.splits if_splits)

lemma parseInt_100: "parseInt (Some (js ''100'')) = Num 100"
  by (simp add: parse_defs to_number_small)

text \<open>
  C8: the list handler of the second controller applies neither bound.  Asked for
  \<open>limit=100\<close> by user 1, who owns two addresses, it answers with
  \<open>itemsPerPage = 100\<close>; the claim asks for 50, which is what the handler of the full
  controller answers on the same request (lemma \<open>full_listing_limit_clamped\<close>).
\<close>

theorem minimal_listing_limit_not_clamped:
  "getShippingAddressesByUserId_minimal (Some 1) None (Some (js ''100'')) example_db =
     respond 200
       (PageData ''Shipping addresses retrieved successfully'' None
          [example_address 3 1 False 30, example_address 1 1 True 10]
          \<lparr>currentPage = Num 1, totalPages = Num 1, totalItems = 2, itemsPerPage = Num 100\<rparr>)"
proof -
  have l: "or_default (parseInt (Some (js ''100''))) 10 = Num 100"
    by (simp add: or_default_def parseInt_100)
  have p: "or_default (parseInt None) 1 = Num 1"
    by (simp add: or_default_def parseInt_def)
  have off: "js_times (js_minus (Num 1) 1) (Num 100) = Num 0"
    by (simp add: js_minus_def js_times_def to_number_small)
  have c: "Math_ceil_div 2 (Num 100) = Num 1"
    by (simp add: Math_ceil_div_int)
  show ?thesis
    by (simp add: getShippingAddressesByUserId_minimal_def l p off c Let_def
        ShippingAddress_findAndCountAll_def ShippingAddress_findAll_def ShippingAddress_count_def
        store_accepts_def sql_bigint_max_def
        order_created_desc_def example_db_def example_address_def)
qed

lemma full_listing_limit_clamped:
  "getShippingAddressesByUserId (Some 1) None (Some (js ''100'')) example_db =
     respond 200
       (PageData ''Shipping addresses retrieved successfully'' (Some (1, js ''Ana Paz''))
          [example_address 3 1 False 30, example_address 1 1 True 10]
          \<lparr>currentPage = Num 1, totalPages = Num 1, totalItems = 2, itemsPerPage = Num 50\<rparr>)"
proof -
  have u: "User_findByPk example_db 1 = Some (example_user 1)"
    by (simp add: User_findByPk_def example_defs)
  have a: "addresses_of_user example_db 1 =
             [example_address 1 1 True 10, example_address 3 1 False 30]"
    by (simp add: addresses_of_user_def example_defs)
  have l: "limit_of (Some (js ''100'')) = Num 50"
    using parseInt_100 by (rule limit_above_50) simp
  have p: "page_of None = Num 1"
    by (simp add: page_of_def or_default_def parseInt_def Math_max_def)
  have off: "js_times (js_minus (page_of None) 1) (limit_of (Some (js ''100''))) = Num 0"
    by (simp add: p l js_minus_def js_times_def to_number_small)
  have acc: "store_accepts (Num 0)"
    by (simp add: store_accepts_def sql_bigint_max_def)
  have c: "Math_ceil_div 2 (Num 50) = Num 1"
    by (simp add: Math_ceil_div_int)
  have o: "order_created_desc [example_address 1 1 True 10, example_address 3 1 False 30] =
             [example_address 3 1 False 30, example_address 1 1 True 10]"
    by (simp add: order_created_desc_def example_address_def)
  show ?thesis
    unfolding getShippingAddressesByUserId_accepted [OF u l off acc] a p o
    by (simp add: c example_user_def js_def)
qed

subsection \<open>The stored credential\<close>







end
